theory Spec2Isabelle
  imports Main "HOL-Library.Multiset"
begin

unbundle bit_operations_syntax

section \<open>formenc: decoding form values into a struct\<close>

text \<open>
  A shallow embedding of \<^verbatim>\<open>encoding/form/encoding.go\<close>. Go strings are byte strings
  (\<open>string\<close>), a \<^verbatim>\<open>[]string\<close> is a \<open>string list\<close>. The reflective calls of the source
  are modelled by the data they read: a struct type is the list of its fields and the
  table of its methods, a struct value maps each field name to the field's value.
\<close>

subsection \<open>The helpers of package strings\<close>

text \<open>
  \<^verbatim>\<open>strings.Split(s, sep)\<close> for a separator of one byte: the pieces between the
  separators, a single empty piece for the empty string.
\<close>

fun Split :: "string \<Rightarrow> char \<Rightarrow> string list" where
  "Split [] sep = [[]]"
| "Split (c # cs) sep =
     (if c = sep then [] # Split cs sep
      else (case Split cs sep of
              [] \<Rightarrow> [[c]]
            | p # ps \<Rightarrow> (c # p) # ps))"

definition HasPrefix :: "string \<Rightarrow> string \<Rightarrow> bool" where
  "HasPrefix s pre = (length pre \<le> length s \<and> take (length pre) s = pre)"

definition TrimPrefix :: "string \<Rightarrow> string \<Rightarrow> string" where
  "TrimPrefix s pre = (if HasPrefix s pre then drop (length pre) s else s)"

subsection \<open>Tags\<close>

text \<open>
  The struct \<^verbatim>\<open>Tag\<close>. Its two unexported fields \<^verbatim>\<open>validator\<close> and \<^verbatim>\<open>unmarshaler\<close>
  are never written or read by the package and are left out.
\<close>

record Tag =
  Name :: string
  Prefix :: string
  Suffix :: string
  Omit :: bool
  Ignore :: bool
  Group :: bool

text \<open>The value of \<^verbatim>\<open>&Tag{}\<close>.\<close>

definition zeroTag :: Tag where
  "zeroTag = \<lparr>Name = [], Prefix = [], Suffix = [], Omit = False, Ignore = False, Group = False\<rparr>"

text \<open>The body of the loop over \<^verbatim>\<open>parts[1:]\<close> in \<^verbatim>\<open>parseTag\<close>: the first case that holds is taken.\<close>

definition tagPart :: "Tag \<Rightarrow> string \<Rightarrow> Tag" where
  "tagPart t p =
     (if p = ''omitempty'' then t\<lparr>Omit := True\<rparr>
      else if HasPrefix p ''prefix='' then t\<lparr>Prefix := TrimPrefix p ''prefix=''\<rparr>
      else if HasPrefix p ''suffix='' then t\<lparr>Suffix := TrimPrefix p ''suffix=''\<rparr>
      else t)"

text \<open>The switch on \<^verbatim>\<open>parts[0]\<close>.\<close>

definition tagHead :: "string \<Rightarrow> Tag" where
  "tagHead n =
     (if n = ''+'' then zeroTag\<lparr>Group := True\<rparr>
      else if n = ''-'' then zeroTag\<lparr>Ignore := True\<rparr>
      else zeroTag\<lparr>Name := n\<rparr>)"

text \<open>
  \<^verbatim>\<open>parseTag\<close>. \<^verbatim>\<open>Split\<close> never returns the empty list (lemma \<open>Split_not_Nil\<close>), so
  \<^verbatim>\<open>parts[0]\<close> is always there; the first branch of the case below is never taken.
\<close>

definition parseTag :: "string \<Rightarrow> Tag" where
  "parseTag str =
     (case Split str CHR '','' of
        [] \<Rightarrow> zeroTag
      | n # rest \<Rightarrow>
          if rest = [] \<and> n = [] then zeroTag
          else foldl tagPart (tagHead n) rest)"

subsection \<open>Errors and panics\<close>

record ValidationError =
  Field :: string
  Message :: string

text \<open>The two sentinel errors of package strconv.\<close>

datatype numErr = ErrSyntax | ErrRange

text \<open>
  An \<^verbatim>\<open>error\<close> value is told apart by its dynamic type, which is what the type
  assertion in \<^verbatim>\<open>walk\<close> looks at: a non-nil \<^verbatim>\<open>*ValidationError\<close>, a
  \<^verbatim>\<open>ValidationError\<close> held by value (the method \<^verbatim>\<open>Error\<close> has a value receiver, so
  the struct itself is an error too), a \<^verbatim>\<open>CompoundValidationError\<close>, the error of
  \<^verbatim>\<open>errors.New\<close> and \<^verbatim>\<open>fmt.Errorf\<close> with its message, and \<^verbatim>\<open>*strconv.NumError\<close> with
  its fields \<^verbatim>\<open>Func\<close>, \<^verbatim>\<open>Num\<close> and \<^verbatim>\<open>Err\<close>.
\<close>

datatype error =
    PtrValidationError ValidationError
  | ValValidationError ValidationError
  | CompoundValidationError "ValidationError list"
  | ErrorString string
  | NumError string string numErr

text \<open>
  The run-time panics the package can raise and does not recover: an index out of
  range, \<^verbatim>\<open>reflect.Value.Set\<close> on a value that cannot be set or with a value that is
  not assignable to its type, \<^verbatim>\<open>reflect.Value.Interface\<close> on a value obtained from an
  unexported field, a \<^verbatim>\<open>reflect\<close> setter called on a
  value of the wrong kind, and \<^verbatim>\<open>Type\<close> called on the zero \<^verbatim>\<open>reflect.Value\<close>. A function
  that can panic returns \<open>panic + 'a\<close>.
\<close>

datatype panic =
    IndexOutOfRange
  | SetUnsettable
  | NotAssignable
  | InterfaceUnexported
  | WrongKind
  | TypeOfZeroValue

subsection \<open>Package strconv\<close>

text \<open>
  The package calls \<^verbatim>\<open>strconv.ParseInt(val, 0, 0)\<close>, \<^verbatim>\<open>strconv.ParseUint(val, 0, 0)\<close>,
  \<^verbatim>\<open>strconv.ParseBool\<close> and \<^verbatim>\<open>strconv.ParseFloat(val, 64)\<close> of the Go standard
  library. The first three are modelled here after the library (Go 1.13 and later:
  base prefixes \<^verbatim>\<open>0b\<close>, \<^verbatim>\<open>0o\<close>, \<^verbatim>\<open>0x\<close>, a leading \<^verbatim>\<open>0\<close> for octal, and underscores
  between digits), always with base 0 and bit size 0, that is the size of \<^verbatim>\<open>int\<close>,
  taken to be 64 bits.
\<close>

definition IntSize :: nat where
  "IntSize = 64"

definition maxUint64 :: nat where
  "maxUint64 = 2 ^ 64 - 1"

text \<open>\<^verbatim>\<open>lower(c)\<close> is \<^verbatim>\<open>c | ('x' - 'X')\<close>: it sets the bit of value 32.\<close>

definition lower :: "char \<Rightarrow> nat" where
  "lower c = (of_char c :: nat) OR 32"

text \<open>The base chosen from the prefix when \<^verbatim>\<open>base == 0\<close>, and the rest of the string.\<close>

definition prefixBase :: "string \<Rightarrow> nat \<times> string" where
  "prefixBase s =
     (if s \<noteq> [] \<and> s ! 0 = CHR ''0'' then
        (if length s \<ge> 3 \<and> lower (s ! 1) = of_char CHR ''b'' then (2, drop 2 s)
         else if length s \<ge> 3 \<and> lower (s ! 1) = of_char CHR ''o'' then (8, drop 2 s)
         else if length s \<ge> 3 \<and> lower (s ! 1) = of_char CHR ''x'' then (16, drop 2 s)
         else (8, drop 1 s))
      else (10, s))"

text \<open>The value of a digit byte: \<^verbatim>\<open>c - '0'\<close>, or \<^verbatim>\<open>lower(c) - 'a' + 10\<close> for a letter.\<close>

definition digitOf :: "char \<Rightarrow> nat option" where
  "digitOf c =
     (let b = (of_char c :: nat) in
      if 48 \<le> b \<and> b \<le> 57 then Some (b - 48)
      else if 97 \<le> lower c \<and> lower c \<le> 122 then Some (lower c - 97 + 10)
      else None)"

text \<open>
  The loop of \<^verbatim>\<open>ParseUint\<close> over the bytes, with the running value \<open>n\<close> (a
  \<^verbatim>\<open>uint64\<close>, the wrap-around of \<^verbatim>\<open>n + d\<close> written out) and the flag \<^verbatim>\<open>underscores\<close>.
\<close>

fun parseDigits :: "nat \<Rightarrow> nat \<Rightarrow> nat \<Rightarrow> string \<Rightarrow> nat \<Rightarrow> bool \<Rightarrow> numErr + (nat \<times> bool)" where
  "parseDigits base cutoff maxVal [] n us = Inr (n, us)"
| "parseDigits base cutoff maxVal (c # cs) n us =
     (if c = CHR ''_'' then parseDigits base cutoff maxVal cs n True
      else (case digitOf c of
              None \<Rightarrow> Inl ErrSyntax
            | Some d \<Rightarrow>
                if d \<ge> base then Inl ErrSyntax
                else if n \<ge> cutoff then Inl ErrRange
                else (let n' = n * base; n1 = (n' + d) mod 2 ^ 64 in
                      if n1 < n' \<or> n1 > maxVal then Inl ErrRange
                      else parseDigits base cutoff maxVal cs n1 us)))"

text \<open>
  \<^verbatim>\<open>underscoreOK\<close>: underscores may only separate digits, or follow the base prefix.
  \<open>saw\<close> is the last byte class seen: \<^verbatim>\<open>'^'\<close> the start, \<^verbatim>\<open>'0'\<close> a digit, \<^verbatim>\<open>'_'\<close> an
  underscore, \<^verbatim>\<open>'!'\<close> anything else.
\<close>

fun underscoreLoop :: "bool \<Rightarrow> char \<Rightarrow> string \<Rightarrow> bool" where
  "underscoreLoop hex saw [] = (saw \<noteq> CHR ''_'')"
| "underscoreLoop hex saw (c # cs) =
     (if (48 \<le> (of_char c :: nat) \<and> (of_char c :: nat) \<le> 57)
         \<or> (hex \<and> 97 \<le> lower c \<and> lower c \<le> 102)
      then underscoreLoop hex CHR ''0'' cs
      else if c = CHR ''_'' then
        (if saw \<noteq> CHR ''0'' then False else underscoreLoop hex CHR ''_'' cs)
      else if saw = CHR ''_'' then False
      else underscoreLoop hex CHR ''!'' cs)"

definition underscoreOK :: "string \<Rightarrow> bool" where
  "underscoreOK s0 =
     (let s = (if length s0 \<ge> 1 \<and> (s0 ! 0 = CHR ''-'' \<or> s0 ! 0 = CHR ''+'') then drop 1 s0 else s0) in
      if length s \<ge> 2 \<and> s ! 0 = CHR ''0''
         \<and> (lower (s ! 1) = of_char CHR ''b'' \<or> lower (s ! 1) = of_char CHR ''o''
              \<or> lower (s ! 1) = of_char CHR ''x'')
      then underscoreLoop (lower (s ! 1) = of_char CHR ''x'') CHR ''0'' (drop 2 s)
      else underscoreLoop False CHR ''^'' s)"

text \<open>\<^verbatim>\<open>ParseUint(s, 0, 0)\<close> up to the kind of failure; on success the value.\<close>

definition parseUint :: "string \<Rightarrow> numErr + nat" where
  "parseUint s =
     (if s = [] then Inl ErrSyntax
      else (case prefixBase s of
              (base, s') \<Rightarrow>
                (case parseDigits base (maxUint64 div base + 1) (2 ^ IntSize - 1) s' 0 False of
                   Inl e \<Rightarrow> Inl e
                 | Inr (n, us) \<Rightarrow>
                     if us \<and> \<not> underscoreOK s then Inl ErrSyntax else Inr n)))"

definition ParseUint :: "string \<Rightarrow> error + nat" where
  "ParseUint s =
     (case parseUint s of
        Inl e \<Rightarrow> Inl (NumError ''ParseUint'' s e)
      | Inr n \<Rightarrow> Inr n)"

text \<open>
  \<^verbatim>\<open>ParseInt(s, 0, 0)\<close>: the sign is picked off, the rest goes through \<^verbatim>\<open>ParseUint\<close>,
  and the magnitude is checked against \<open>2 ^ (IntSize - 1)\<close>. A range error of
  \<^verbatim>\<open>ParseUint\<close> leaves the largest magnitude, which fails that check as well.
\<close>

definition ParseInt :: "string \<Rightarrow> error + int" where
  "ParseInt s0 =
     (if s0 = [] then Inl (NumError ''ParseInt'' s0 ErrSyntax)
      else (let neg = (s0 ! 0 = CHR ''-'');
                s = (if s0 ! 0 = CHR ''+'' \<or> s0 ! 0 = CHR ''-'' then drop 1 s0 else s0);
                cutoff = (2::nat) ^ (IntSize - 1)
            in (case parseUint s of
                  Inl ErrSyntax \<Rightarrow> Inl (NumError ''ParseInt'' s0 ErrSyntax)
                | Inl ErrRange \<Rightarrow> Inl (NumError ''ParseInt'' s0 ErrRange)
                | Inr un \<Rightarrow>
                    if \<not> neg \<and> un \<ge> cutoff then Inl (NumError ''ParseInt'' s0 ErrRange)
                    else if neg \<and> un > cutoff then Inl (NumError ''ParseInt'' s0 ErrRange)
                    else Inr (if neg then - int un else int un))))"

text \<open>\<^verbatim>\<open>ParseBool\<close> returns its value together with its error: \<^verbatim>\<open>false\<close> on a failure.\<close>

definition ParseBool :: "string \<Rightarrow> bool \<times> error option" where
  "ParseBool str =
     (if str \<in> {''1'', ''t'', ''T'', ''TRUE'', ''true'', ''True''} then (True, None)
      else if str \<in> {''0'', ''f'', ''F'', ''FALSE'', ''false'', ''False''} then (False, None)
      else (False, Some (NumError ''ParseBool'' str ErrSyntax)))"

text \<open>
  Floating point is not modelled: the type \<open>'f\<close> of \<^verbatim>\<open>float64\<close> values, the function
  \<^verbatim>\<open>strconv.ParseFloat(s, 64)\<close> and the conversion \<^verbatim>\<open>float32(x)\<close> are parameters of
  the model.
\<close>

record 'f floats =
  ParseFloat :: "string \<Rightarrow> error + 'f"
  float32 :: "'f \<Rightarrow> 'f"

subsection \<open>Types and values seen through reflection\<close>

text \<open>
  The types a struct field can have, as far as \<^verbatim>\<open>assignToStructField\<close> tells them
  apart: the predeclared string, integer, floating-point and boolean types,
  \<^verbatim>\<open>[]string\<close>, any other slice type, any other type, given by its name and the
  name of its kind, and a defined type (\<^verbatim>\<open>type T string\<close>), given by its name and the
  type it is defined over.
\<close>

datatype gotype =
    TString
  | TInt | TInt8 | TInt16 | TInt32 | TInt64
  | TUint | TUint8 | TUint16 | TUint32 | TUint64
  | TFloat32 | TFloat64
  | TBool
  | TSliceString
  | TSliceOther
  | TOther string string
  | TDefined string gotype

text \<open>
  The underlying type decides the kind: \<^verbatim>\<open>rv.Kind()\<close> of a field of a defined type is
  the kind of the type it is defined over.
\<close>

fun underlying :: "gotype \<Rightarrow> gotype" where
  "underlying (TDefined name t) = underlying t"
| "underlying t = t"

datatype 'f gval =
    VString string
  | VInt int
  | VUint nat
  | VFloat 'f
  | VBool bool
  | VStrings "string list"
  | VOther

text \<open>The groups of kinds that the cases of the switch in \<^verbatim>\<open>assignToStructField\<close> name.\<close>

definition isString :: "gotype \<Rightarrow> bool" where
  "isString t = (underlying t = TString)"

definition isInt :: "gotype \<Rightarrow> bool" where
  "isInt t = (underlying t \<in> {TInt, TInt8, TInt16, TInt32, TInt64})"

definition isUint :: "gotype \<Rightarrow> bool" where
  "isUint t = (underlying t \<in> {TUint, TUint8, TUint16, TUint32, TUint64})"

definition isFloat :: "gotype \<Rightarrow> bool" where
  "isFloat t = (underlying t \<in> {TFloat32, TFloat64})"

definition isBool :: "gotype \<Rightarrow> bool" where
  "isBool t = (underlying t = TBool)"

definition isSlice :: "gotype \<Rightarrow> bool" where
  "isSlice t = (underlying t \<in> {TSliceString, TSliceOther})"

text \<open>The number of bits of an integer type.\<close>

fun bitSize :: "gotype \<Rightarrow> nat" where
  "bitSize TInt = IntSize"
| "bitSize TInt8 = 8"
| "bitSize TInt16 = 16"
| "bitSize TInt32 = 32"
| "bitSize TInt64 = 64"
| "bitSize TUint = IntSize"
| "bitSize TUint8 = 8"
| "bitSize TUint16 = 16"
| "bitSize TUint32 = 32"
| "bitSize TUint64 = 64"
| "bitSize (TDefined name t) = bitSize t"
| "bitSize _ = 0"

text \<open>\<^verbatim>\<open>Type().Name()\<close> and \<^verbatim>\<open>Kind().String()\<close>.\<close>

fun kindString :: "gotype \<Rightarrow> string" where
  "kindString TString = ''string''"
| "kindString TInt = ''int''"
| "kindString TInt8 = ''int8''"
| "kindString TInt16 = ''int16''"
| "kindString TInt32 = ''int32''"
| "kindString TInt64 = ''int64''"
| "kindString TUint = ''uint''"
| "kindString TUint8 = ''uint8''"
| "kindString TUint16 = ''uint16''"
| "kindString TUint32 = ''uint32''"
| "kindString TUint64 = ''uint64''"
| "kindString TFloat32 = ''float32''"
| "kindString TFloat64 = ''float64''"
| "kindString TBool = ''bool''"
| "kindString TSliceString = ''slice''"
| "kindString TSliceOther = ''slice''"
| "kindString (TOther name kind) = kind"
| "kindString (TDefined name t) = kindString t"

fun typeName :: "gotype \<Rightarrow> string" where
  "typeName TSliceString = []"
| "typeName TSliceOther = []"
| "typeName (TOther name kind) = name"
| "typeName (TDefined name t) = name"
| "typeName t = kindString t"

text \<open>
  A \<^verbatim>\<open>reflect.Value\<close> for a struct field: its type, the flag \<^verbatim>\<open>flagRO\<close> that
  \<^verbatim>\<open>reflect\<close> sets on a value obtained from an unexported field, and the data it refers
  to. The struct is always reached through a pointer here, so the value is
  addressable and \<^verbatim>\<open>CanSet\<close> is the absence of \<^verbatim>\<open>flagRO\<close>. The setters return the
  value with the new data: the storage the value refers to after the call.
\<close>

record 'f Value =
  vtype :: gotype
  flagRO :: bool
  vdata :: "'f gval"

definition CanSet :: "'f Value \<Rightarrow> bool" where
  "CanSet rv = (\<not> flagRO rv)"

text \<open>
  \<^verbatim>\<open>rv.Set(reflect.ValueOf(x))\<close> for \<open>x\<close> of the type \<open>xt\<close>: the value must be settable,
  and \<open>x\<close> assignable to the type of the field. The package sets a \<^verbatim>\<open>string\<close>, a
  \<^verbatim>\<open>bool\<close> and, once the type assertion has shown the field to be a \<^verbatim>\<open>[]string\<close>, a
  \<^verbatim>\<open>[]string\<close>: each is assignable to a field of that very type only (a \<^verbatim>\<open>string\<close> is
  not assignable to a field of a type defined over \<^verbatim>\<open>string\<close>).
\<close>

definition SetValue :: "'f Value \<Rightarrow> gotype \<Rightarrow> 'f gval \<Rightarrow> panic + 'f Value" where
  "SetValue rv xt x =
     (if \<not> CanSet rv then Inl SetUnsettable
      else if vtype rv \<noteq> xt then Inl NotAssignable
      else Inr (rv\<lparr>vdata := x\<rparr>))"

text \<open>
  \<^verbatim>\<open>SetInt\<close>, \<^verbatim>\<open>SetUint\<close> and \<^verbatim>\<open>SetFloat\<close> go by the kind of the field. The first
  two convert the 64-bit argument to the size of the field (\<^verbatim>\<open>int8(x)\<close>, ...), which
  keeps the low bits.
\<close>

definition SetInt :: "'f Value \<Rightarrow> int \<Rightarrow> panic + 'f Value" where
  "SetInt rv x =
     (if \<not> CanSet rv then Inl SetUnsettable
      else if \<not> isInt (vtype rv) then Inl WrongKind
      else Inr (rv\<lparr>vdata := VInt (signed_take_bit (bitSize (vtype rv) - 1) x)\<rparr>))"

definition SetUint :: "'f Value \<Rightarrow> nat \<Rightarrow> panic + 'f Value" where
  "SetUint rv x =
     (if \<not> CanSet rv then Inl SetUnsettable
      else if \<not> isUint (vtype rv) then Inl WrongKind
      else Inr (rv\<lparr>vdata := VUint (take_bit (bitSize (vtype rv)) x)\<rparr>))"

definition SetFloat :: "'f floats \<Rightarrow> 'f Value \<Rightarrow> 'f \<Rightarrow> panic + 'f Value" where
  "SetFloat fl rv x =
     (if \<not> CanSet rv then Inl SetUnsettable
      else if underlying (vtype rv) = TFloat32 then Inr (rv\<lparr>vdata := VFloat (float32 fl x)\<rparr>)
      else if underlying (vtype rv) = TFloat64 then Inr (rv\<lparr>vdata := VFloat x\<rparr>)
      else Inl WrongKind)"

subsection \<open>Assigning to a field\<close>

text \<open>The error \<^verbatim>\<open>fmt.Errorf("cannot set %q (%s)", rv.Type().Name(), rv.Kind().String())\<close>.\<close>

definition cannotSet :: "gotype \<Rightarrow> error" where
  "cannotSet t =
     ErrorString (''cannot set '' @ [CHR 0x22] @ typeName t @ [CHR 0x22] @ '' ('' @ kindString t @ '')'')"

definition assignToInt :: "'f Value \<Rightarrow> string \<Rightarrow> panic + ('f Value \<times> error option)" where
  "assignToInt rv val =
     (if \<not> CanSet rv then Inr (rv, Some (cannotSet (vtype rv)))
      else (case ParseInt val of
              Inl err \<Rightarrow> Inr (rv, Some err)
            | Inr ival \<Rightarrow>
                (case SetInt rv ival of
                   Inl p \<Rightarrow> Inl p
                 | Inr rv' \<Rightarrow> Inr (rv', None))))"

definition assignToUint :: "'f Value \<Rightarrow> string \<Rightarrow> panic + ('f Value \<times> error option)" where
  "assignToUint rv val =
     (if \<not> CanSet rv then Inr (rv, Some (cannotSet (vtype rv)))
      else (case ParseUint val of
              Inl err \<Rightarrow> Inr (rv, Some err)
            | Inr ival \<Rightarrow>
                (case SetUint rv ival of
                   Inl p \<Rightarrow> Inl p
                 | Inr rv' \<Rightarrow> Inr (rv', None))))"

definition assignToFloat :: "'f floats \<Rightarrow> 'f Value \<Rightarrow> string \<Rightarrow> panic + ('f Value \<times> error option)" where
  "assignToFloat fl rv val =
     (if \<not> CanSet rv then Inr (rv, Some (cannotSet (vtype rv)))
      else (case ParseFloat fl val of
              Inl err \<Rightarrow> Inr (rv, Some err)
            | Inr ival \<Rightarrow>
                (case SetFloat fl rv ival of
                   Inl p \<Rightarrow> Inl p
                 | Inr rv' \<Rightarrow> Inr (rv', None))))"

text \<open>\<^verbatim>\<open>empty\<close>: no value, or the single value \<^verbatim>\<open>""\<close>.\<close>

definition empty :: "string list \<Rightarrow> bool" where
  "empty v = (if length v = 0 then True else length v = 1 \<and> length (v ! 0) = 0)"

text \<open>The index expression \<^verbatim>\<open>val[0]\<close>, which panics on the empty slice.\<close>

definition index0 :: "string list \<Rightarrow> panic + string" where
  "index0 val = (case val of [] \<Rightarrow> Inl IndexOutOfRange | v0 # _ \<Rightarrow> Inr v0)"

text \<open>
  \<^verbatim>\<open>assignToStructField\<close>: the switch on \<^verbatim>\<open>rv.Kind()\<close>. The result is the field after
  the call and the error returned, or the panic raised. In the case \<^verbatim>\<open>reflect.Slice\<close>
  the type assertion \<^verbatim>\<open>rv.Interface().([]string)\<close> holds for the type \<^verbatim>\<open>[]string\<close> itself
  only.
\<close>

definition assignToStructField ::
  "'f floats \<Rightarrow> 'f Value \<Rightarrow> string list \<Rightarrow> panic + ('f Value \<times> error option)" where
  "assignToStructField fl rv val =
     (if isString (vtype rv) then
        (case index0 val of
           Inl p \<Rightarrow> Inl p
         | Inr v0 \<Rightarrow>
             (case SetValue rv TString (VString v0) of
                Inl p \<Rightarrow> Inl p
              | Inr rv' \<Rightarrow> Inr (rv', None)))
      else if isInt (vtype rv) then
        (case (if \<not> empty val then index0 val else Inr ''0'') of
           Inl p \<Rightarrow> Inl p
         | Inr vv \<Rightarrow> assignToInt rv vv)
      else if isUint (vtype rv) then
        (case (if \<not> empty val then index0 val else Inr ''0'') of
           Inl p \<Rightarrow> Inl p
         | Inr vv \<Rightarrow> assignToUint rv vv)
      else if isFloat (vtype rv) then
        (case (if \<not> empty val then index0 val else Inr ''0'') of
           Inl p \<Rightarrow> Inl p
         | Inr vv \<Rightarrow> assignToFloat fl rv vv)
      else if isBool (vtype rv) then
        (case index0 val of
           Inl p \<Rightarrow> Inl p
         | Inr v0 \<Rightarrow>
             (case ParseBool v0 of
                (b, err) \<Rightarrow>
                  (case SetValue rv TBool (VBool b) of
                     Inl p \<Rightarrow> Inl p
                   | Inr rv' \<Rightarrow> Inr (rv', err))))
      else if isSlice (vtype rv) then
        (if flagRO rv then Inl InterfaceUnexported
         else if vtype rv = TSliceString then
           (case SetValue rv TSliceString (VStrings val) of
              Inl p \<Rightarrow> Inl p
            | Inr rv' \<Rightarrow> Inr (rv', None))
         else Inr (rv, Some (ErrorString ''Only string slices are supported.'')))
      else Inr (rv, Some (ErrorString ''Unsupported kind'')))"

subsection \<open>Structs, their fields and their methods\<close>

text \<open>
  What \<^verbatim>\<open>reflect\<close> tells about a field of a struct type: its name, its package path
  (empty exactly for an exported field), its type, and the value of the key \<^verbatim>\<open>form\<close>
  in its tag as \<^verbatim>\<open>f.Tag.Get("form")\<close> returns it (empty when the field has no such tag).
\<close>

record StructField =
  sfName :: string
  sfPkgPath :: string
  sfType :: gotype
  sfTag :: string

text \<open>The value of a struct: the value of each field, by the name of the field.\<close>

type_synonym 'f fields = "string \<Rightarrow> 'f gval"

text \<open>
  A method found by name has one of the two signatures the package declares,
  \<^verbatim>\<open>Validator\<close> (returning \<^verbatim>\<open>*ValidationError\<close>) or \<^verbatim>\<open>Setter\<close> (returning \<^verbatim>\<open>error\<close>).
  Its receiver is the pointer to the struct, so it reads the fields and may write them:
  it returns the fields after the call together with its result, \<open>None\<close> for \<^verbatim>\<open>nil\<close>,
  or it panics.
\<close>

datatype 'f Method =
    ValidatorFunc "'f fields \<Rightarrow> string list \<Rightarrow> panic + ('f fields \<times> ValidationError option)"
  | SetterFunc "'f fields \<Rightarrow> string list \<Rightarrow> panic + ('f fields \<times> error option)"

text \<open>A struct type: its fields in the order of declaration, and the methods of the pointer type by name.\<close>

record 'f StructType =
  Fields :: "StructField list"
  MethodByName :: "string \<Rightarrow> 'f Method option"

text \<open>
  \<^verbatim>\<open>callFormMethod\<close>: the first result of the call, when it is not nil, is returned
  as an \<^verbatim>\<open>error\<close>, so that the non-nil result of a \<^verbatim>\<open>Validator\<close> has the dynamic type
  \<^verbatim>\<open>*ValidationError\<close> and the result of a \<^verbatim>\<open>Setter\<close> keeps its own.
\<close>

definition callFormMethod ::
  "'f Method \<Rightarrow> 'f fields \<Rightarrow> string list \<Rightarrow> panic + ('f fields \<times> error option)" where
  "callFormMethod m target values =
     (case m of
        ValidatorFunc f \<Rightarrow>
          (case f target values of
             Inl p \<Rightarrow> Inl p
           | Inr (target', None) \<Rightarrow> Inr (target', None)
           | Inr (target', Some ve) \<Rightarrow> Inr (target', Some (PtrValidationError ve)))
      | SetterFunc f \<Rightarrow> f target values)"

text \<open>\<^verbatim>\<open>rv.FieldByName(f.Name)\<close> on the struct reached through the pointer.\<close>

definition FieldByName :: "'f fields \<Rightarrow> StructField \<Rightarrow> 'f Value" where
  "FieldByName rv f = \<lparr>vtype = sfType f, flagRO = (sfPkgPath f \<noteq> []), vdata = rv (sfName f)\<rparr>"

text \<open>
  The tag of a field as \<^verbatim>\<open>Tags\<close> and \<^verbatim>\<open>assignToStruct\<close> both compute it: the parsed
  tag, with the name of the field for its name when the tag is not \<^verbatim>\<open>Ignore\<close> and
  has no name.
\<close>

definition fieldTag :: "StructField \<Rightarrow> Tag" where
  "fieldTag f =
     (let tag = parseTag (sfTag f) in
      if \<not> Ignore tag \<and> Name tag = [] then tag\<lparr>Name := sfName f\<rparr> else tag)"

text \<open>
  The statement \<^verbatim>\<open>if m, ok := ptrt.MethodByName(validator); ok { ... }\<close>: the call of
  the method \<^verbatim>\<open>FormValidate\<close> of the field when there is one, nothing otherwise.
\<close>

definition runValidator ::
  "'f StructType \<Rightarrow> StructField \<Rightarrow> 'f fields \<Rightarrow> string list
    \<Rightarrow> panic + ('f fields \<times> error option)" where
  "runValidator ptrt f rv values =
     (case MethodByName ptrt (''FormValidate'' @ sfName f) of
        Some m \<Rightarrow> callFormMethod m rv values
      | None \<Rightarrow> Inr (rv, None))"

text \<open>
  The body of \<^verbatim>\<open>if tag.Name == key\<close> in \<^verbatim>\<open>assignToStruct\<close>: the validator, whose
  error is returned, then the setter when there is one, else \<^verbatim>\<open>assignToStructField\<close>,
  whose error is dropped (\<^verbatim>\<open>return nil\<close>). The calls to \<^verbatim>\<open>log.Printf\<close> and
  \<^verbatim>\<open>fmt.Printf\<close> are left out.
\<close>

definition assignMatched ::
  "'f floats \<Rightarrow> 'f StructType \<Rightarrow> 'f fields \<Rightarrow> StructField \<Rightarrow> string list
    \<Rightarrow> panic + ('f fields \<times> error option)" where
  "assignMatched fl ptrt rv f values =
     (let setter = ''FormSet'' @ sfName f
      in (case runValidator ptrt f rv values of
            Inl p \<Rightarrow> Inl p
          | Inr (rv1, Some err) \<Rightarrow> Inr (rv1, Some err)
          | Inr (rv1, None) \<Rightarrow>
              (case MethodByName ptrt setter of
                 Some m \<Rightarrow> callFormMethod m rv1 values
               | None \<Rightarrow>
                   (case assignToStructField fl (FieldByName rv1 f) values of
                      Inl p \<Rightarrow> Inl p
                    | Inr (fv, err) \<Rightarrow> Inr (rv1(sfName f := vdata fv), None)))))"

text \<open>The loop of \<^verbatim>\<open>assignToStruct\<close> over the fields: the first field whose tag name is the key.\<close>

fun assignLoop ::
  "'f floats \<Rightarrow> 'f StructType \<Rightarrow> StructField list \<Rightarrow> 'f fields \<Rightarrow> string \<Rightarrow> string list
    \<Rightarrow> panic + ('f fields \<times> error option)" where
  "assignLoop fl ptrt [] rv key values = Inr (rv, None)"
| "assignLoop fl ptrt (f # fs) rv key values =
     (if Name (fieldTag f) = key then assignMatched fl ptrt rv f values
      else assignLoop fl ptrt fs rv key values)"

definition assignToStruct ::
  "'f floats \<Rightarrow> 'f StructType \<Rightarrow> 'f fields \<Rightarrow> string \<Rightarrow> string list
    \<Rightarrow> panic + ('f fields \<times> error option)" where
  "assignToStruct fl ptrt rv key values = assignLoop fl ptrt (Fields ptrt) rv key values"

subsection \<open>Unmarshal\<close>

text \<open>
  What a non-nil pointer handed to \<^verbatim>\<open>Unmarshal\<close> points to: a struct, with its type
  and the values of its fields, a map, or anything else.
\<close>

datatype 'f target =
    Struct "'f StructType" "'f fields"
  | MapOf
  | OtherKind

text \<open>
  The argument \<^verbatim>\<open>o interface{}\<close>: nil, a value that is not a pointer, a nil pointer,
  or a non-nil pointer, with the name of the pointer type (\<^verbatim>\<open>Type().Name()\<close>, empty
  for \<^verbatim>\<open>*T\<close>) and what it points to.
\<close>

datatype 'f iface =
    NilInterface
  | NonPointer "'f target"
  | NilPointer
  | Pointer string "'f target"

text \<open>The form values \<^verbatim>\<open>url.Values\<close>, as the sequence of entries that \<^verbatim>\<open>range\<close> yields.\<close>

type_synonym Values = "(string \<times> string list) list"

definition cannotStore :: "string \<Rightarrow> error" where
  "cannotStore tname = ErrorString (''object '' @ tname @ '' cannot be used to store values'')"

text \<open>
  \<^verbatim>\<open>findIn\<close>, for the pointer that \<^verbatim>\<open>walk\<close> passes. In the case \<^verbatim>\<open>reflect.Map\<close>
  the type assertion is made on \<^verbatim>\<open>rv.Interface()\<close>, which is the pointer and not the
  map: it fails, \<^verbatim>\<open>assignToMap\<close> is not called, and control leaves the switch for the
  final \<^verbatim>\<open>return\<close>.
\<close>

definition findIn ::
  "'f floats \<Rightarrow> string \<Rightarrow> 'f target \<Rightarrow> string \<Rightarrow> string list \<Rightarrow> panic + ('f target \<times> error option)" where
  "findIn fl tname rv key values =
     (case rv of
        MapOf \<Rightarrow> Inr (rv, Some (cannotStore tname))
      | Struct ptrt st \<Rightarrow>
          (case assignToStruct fl ptrt st key values of
             Inl p \<Rightarrow> Inl p
           | Inr (st', e) \<Rightarrow> Inr (Struct ptrt st', e))
      | OtherKind \<Rightarrow> Inr (rv, Some (cannotStore tname)))"

text \<open>The loop of \<^verbatim>\<open>walk\<close>, with the list \<^verbatim>\<open>verrs\<close>, and what follows the loop.\<close>

fun walkLoop ::
  "'f floats \<Rightarrow> string \<Rightarrow> 'f target \<Rightarrow> ValidationError list \<Rightarrow> Values
    \<Rightarrow> panic + ('f target \<times> error option)" where
  "walkLoop fl tname val verrs [] =
     Inr (val, if length verrs > 0 then Some (CompoundValidationError verrs) else None)"
| "walkLoop fl tname val verrs ((key, vals) # v) =
     (case findIn fl tname val key vals of
        Inl p \<Rightarrow> Inl p
      | Inr (val', None) \<Rightarrow> walkLoop fl tname val' verrs v
      | Inr (val', Some e) \<Rightarrow>
          (case e of
             PtrValidationError ve \<Rightarrow> walkLoop fl tname val' (verrs @ [ve]) v
           | _ \<Rightarrow> Inr (val', Some e)))"

definition walk :: "'f floats \<Rightarrow> string \<Rightarrow> 'f target \<Rightarrow> Values \<Rightarrow> panic + ('f target \<times> error option)" where
  "walk fl tname val v = walkLoop fl tname val [] v"

text \<open>\<^verbatim>\<open>Unmarshal\<close> returns its error; the object is returned with it as the call leaves it.\<close>

definition Unmarshal :: "'f floats \<Rightarrow> Values \<Rightarrow> 'f iface \<Rightarrow> panic + ('f iface \<times> error option)" where
  "Unmarshal fl v obj =
     (case obj of
        Pointer tname val \<Rightarrow>
          (case walk fl tname val v of
             Inl p \<Rightarrow> Inl p
           | Inr (val', e) \<Rightarrow> Inr (Pointer tname val', e))
      | _ \<Rightarrow> Inr (obj, Some (ErrorString ''unmarshal requires a pointer to a receiver'')))"

text \<open>
  \<^verbatim>\<open>Tags\<close>: \<^verbatim>\<open>reflect.Indirect\<close> of nil or of a nil pointer is the zero value, whose
  \<^verbatim>\<open>Type\<close> panics.
\<close>

definition Tags :: "'f iface \<Rightarrow> panic + Tag list" where
  "Tags obj =
     (case obj of
        NilInterface \<Rightarrow> Inl TypeOfZeroValue
      | NilPointer \<Rightarrow> Inl TypeOfZeroValue
      | NonPointer (Struct tt st) \<Rightarrow> Inr (map fieldTag (Fields tt))
      | Pointer tname (Struct tt st) \<Rightarrow> Inr (map fieldTag (Fields tt))
      | _ \<Rightarrow> Inr [])"

subsection \<open>Notions used to state the properties\<close>

text \<open>The field a key resolves to: the first field, in the order of declaration, whose tag name is the key.\<close>

fun findField :: "StructField list \<Rightarrow> string \<Rightarrow> StructField option" where
  "findField [] key = None"
| "findField (f # fs) key = (if Name (fieldTag f) = key then Some f else findField fs key)"

text \<open>What the caller of \<^verbatim>\<open>Unmarshal\<close> gets back: the error, or the panic.\<close>

definition errorOf :: "panic + ('a \<times> error option) \<Rightarrow> panic + error option" where
  "errorOf r = (case r of Inl p \<Rightarrow> Inl p | Inr (x, e) \<Rightarrow> Inr e)"

text \<open>
  The validation failures a scan meets: for each key in turn, processed on the object
  as the keys before it left it, the \<^verbatim>\<open>*ValidationError\<close> that \<^verbatim>\<open>findIn\<close> returns, up
  to the first panic or error of another type.
\<close>

fun encountered :: "'f floats \<Rightarrow> string \<Rightarrow> 'f target \<Rightarrow> Values \<Rightarrow> ValidationError list" where
  "encountered fl tname val [] = []"
| "encountered fl tname val ((key, vals) # v) =
     (case findIn fl tname val key vals of
        Inl p \<Rightarrow> []
      | Inr (val', None) \<Rightarrow> encountered fl tname val' v
      | Inr (val', Some e) \<Rightarrow>
          (case e of
             PtrValidationError ve \<Rightarrow> ve # encountered fl tname val' v
           | _ \<Rightarrow> []))"

text \<open>A scan is free of fatal errors when no key panics or returns an error of another type.\<close>

fun fatalFree :: "'f floats \<Rightarrow> string \<Rightarrow> 'f target \<Rightarrow> Values \<Rightarrow> bool" where
  "fatalFree fl tname val [] = True"
| "fatalFree fl tname val ((key, vals) # v) =
     (case findIn fl tname val key vals of
        Inl p \<Rightarrow> False
      | Inr (val', None) \<Rightarrow> fatalFree fl tname val' v
      | Inr (val', Some e) \<Rightarrow>
          (case e of
             PtrValidationError ve \<Rightarrow> fatalFree fl tname val' v
           | _ \<Rightarrow> False))"

text \<open>The value of a field of the struct behind the pointer after a call of \<^verbatim>\<open>Unmarshal\<close>.\<close>

definition fieldAfter :: "panic + ('f iface \<times> error option) \<Rightarrow> string \<Rightarrow> 'f gval option" where
  "fieldAfter r name =
     (case r of
        Inr (Pointer tname (Struct t st), e) \<Rightarrow> Some (st name)
      | _ \<Rightarrow> None)"

text \<open>Whether an error has the dynamic type \<^verbatim>\<open>*ValidationError\<close>.\<close>

fun isPtrValidationError :: "error \<Rightarrow> bool" where
  "isPtrValidationError (PtrValidationError ve) = True"
| "isPtrValidationError _ = False"

text \<open>The string that the numeric cases of \<^verbatim>\<open>assignToStructField\<close> parse.\<close>

definition chosenInput :: "string list \<Rightarrow> string" where
  "chosenInput val = (if \<not> empty val then hd val else ''0'')"

text \<open>The failure of the parser that belongs to a numeric type on a string, if it fails.\<close>

definition parseFailure :: "'f floats \<Rightarrow> gotype \<Rightarrow> string \<Rightarrow> error option" where
  "parseFailure fl t s =
     (if isInt t then (case ParseInt s of Inl e \<Rightarrow> Some e | Inr x \<Rightarrow> None)
      else if isUint t then (case ParseUint s of Inl e \<Rightarrow> Some e | Inr x \<Rightarrow> None)
      else if isFloat t then (case ParseFloat fl s of Inl e \<Rightarrow> Some e | Inr x \<Rightarrow> None)
      else None)"

text \<open>
  The value of the last segment that starts with \<open>pre\<close>, empty when there is none.
\<close>

definition lastValue :: "string \<Rightarrow> string list \<Rightarrow> string" where
  "lastValue pre ps =
     (if filter (\<lambda>p. HasPrefix p pre) ps = [] then []
      else TrimPrefix (last (filter (\<lambda>p. HasPrefix p pre) ps)) pre)"

text \<open>
  Segments of a tag that set the same part of it: two segments \<^verbatim>\<open>prefix=\<close>, or two
  segments \<^verbatim>\<open>suffix=\<close>. A list of segments is free of conflicts when any two such
  segments in it are equal.
\<close>

definition sameSlot :: "string \<Rightarrow> string \<Rightarrow> bool" where
  "sameSlot p q =
     (p \<noteq> ''omitempty'' \<and> q \<noteq> ''omitempty'' \<and>
      ((HasPrefix p ''prefix='' \<and> HasPrefix q ''prefix='') \<or>
       (HasPrefix p ''suffix='' \<and> HasPrefix q ''suffix='')))"

definition conflictFree :: "string list \<Rightarrow> bool" where
  "conflictFree ps = (\<forall>p \<in> set ps. \<forall>q \<in> set ps. sameSlot p q \<longrightarrow> p = q)"

text \<open>A segment that none of the cases of the loop in \<^verbatim>\<open>parseTag\<close> matches.\<close>

definition unrecognized :: "string \<Rightarrow> bool" where
  "unrecognized p =
     (p \<noteq> ''omitempty'' \<and> \<not> HasPrefix p ''prefix='' \<and> \<not> HasPrefix p ''suffix='')"

subsection \<open>The structs of the package's tests\<close>

text \<open>
  A stand-in for the floating-point parameters where no field is a float: it
  rejects every string.
\<close>

definition noFloats :: "unit floats" where
  "noFloats = \<lparr>ParseFloat = (\<lambda>s. Inl (NumError ''ParseFloat'' s ErrSyntax)), float32 = (\<lambda>x. x)\<rparr>"

text \<open>\<^verbatim>\<open>strings.ToLower\<close> on ASCII text.\<close>

definition ToLower :: "string \<Rightarrow> string" where
  "ToLower s =
     map (\<lambda>c. if 65 \<le> (of_char c :: nat) \<and> (of_char c :: nat) \<le> 90
               then char_of ((of_char c :: nat) + 32) else c) s"

text \<open>The struct \<^verbatim>\<open>FixtureAddress\<close> of the tests, with its two validators and its setter.\<close>

definition FormValidateState ::
  "'f fields \<Rightarrow> string list \<Rightarrow> panic + ('f fields \<times> ValidationError option)" where
  "FormValidateState f vs =
     (if length vs = 0 \<or> vs ! 0 = [] then
        Inr (f, Some \<lparr>Field = ''state'', Message = ''state is required''\<rparr>)
      else if vs ! 0 \<noteq> ''Illinois'' then
        Inr (f, Some \<lparr>Field = ''state'', Message = ''unknown state''\<rparr>)
      else Inr (f, None))"

definition FormValidateStreet ::
  "'f fields \<Rightarrow> string list \<Rightarrow> panic + ('f fields \<times> ValidationError option)" where
  "FormValidateStreet f vs =
     (case index0 vs of
        Inl p \<Rightarrow> Inl p
      | Inr v0 \<Rightarrow>
          if v0 = ''FAIL'' then
            Inr (f, Some \<lparr>Field = ''street'', Message = ''street cannot be FAIL''\<rparr>)
          else Inr (f, None))"

definition FormSetCity ::
  "'f fields \<Rightarrow> string list \<Rightarrow> panic + ('f fields \<times> error option)" where
  "FormSetCity f vs =
     (if length vs = 0 then Inr (f, Some (ErrorString ''city is required''))
      else Inr (f(''City'' := VString (ToLower (vs ! 0))), None))"

definition FixtureAddress :: "'f StructType" where
  "FixtureAddress =
     \<lparr>Fields =
        [\<lparr>sfName = ''Street'', sfPkgPath = [], sfType = TString, sfTag = ''street''\<rparr>,
         \<lparr>sfName = ''City'', sfPkgPath = [], sfType = TString, sfTag = ''city''\<rparr>,
         \<lparr>sfName = ''State'', sfPkgPath = [], sfType = TString, sfTag = ''state''\<rparr>,
         \<lparr>sfName = ''Zip'', sfPkgPath = [], sfType = TInt, sfTag = ''zip''\<rparr>],
      MethodByName =
        (\<lambda>name.
           if name = ''FormValidateState'' then Some (ValidatorFunc FormValidateState)
           else if name = ''FormValidateStreet'' then Some (ValidatorFunc FormValidateStreet)
           else if name = ''FormSetCity'' then Some (SetterFunc FormSetCity)
           else None)\<rparr>"

text \<open>The value \<^verbatim>\<open>&FixtureAddress{}\<close>.\<close>

definition zeroAddress :: "'f fields" where
  "zeroAddress = (\<lambda>name. if name = ''Zip'' then VInt 0 else VString [])"

text \<open>
  The struct \<^verbatim>\<open>ExampleForm\<close> of the tests: two strings, two pointers to structs, and
  the field \<^verbatim>\<open>Processed\<close> with the tag \<^verbatim>\<open>-\<close>. It has no methods.
\<close>

definition ExampleForm :: "'f StructType" where
  "ExampleForm =
     \<lparr>Fields =
        [\<lparr>sfName = ''FirstName'', sfPkgPath = [], sfType = TString, sfTag = ''first_name''\<rparr>,
         \<lparr>sfName = ''LastName'', sfPkgPath = [], sfType = TString, sfTag = ''last_name''\<rparr>,
         \<lparr>sfName = ''HomeAddress'', sfPkgPath = [], sfType = TOther [] ''ptr'',
            sfTag = ''+,omitempty''\<rparr>,
         \<lparr>sfName = ''MailingAddress'', sfPkgPath = [], sfType = TOther [] ''ptr'',
            sfTag = ''+,omitempty,prefix=mail_''\<rparr>,
         \<lparr>sfName = ''Processed'', sfPkgPath = [], sfType = TBool, sfTag = ''-''\<rparr>],
      MethodByName = (\<lambda>name. None)\<rparr>"

definition zeroForm :: "'f fields" where
  "zeroForm =
     (\<lambda>name. if name = ''Processed'' then VBool False
              else if name = ''HomeAddress'' \<or> name = ''MailingAddress'' then VOther
              else VString [])"

text \<open>
  A struct with the two fields \<^verbatim>\<open>FirstName string `form:"first_name"`\<close> and
  \<^verbatim>\<open>LastName string\<close>, the first two fields of \<^verbatim>\<open>AssignmentTestStruct\<close>, and no methods.
\<close>

definition NameStruct :: "'f StructType" where
  "NameStruct =
     \<lparr>Fields =
        [\<lparr>sfName = ''FirstName'', sfPkgPath = [], sfType = TString, sfTag = ''first_name''\<rparr>,
         \<lparr>sfName = ''LastName'', sfPkgPath = [], sfType = TString, sfTag = []\<rparr>],
      MethodByName = (\<lambda>name. None)\<rparr>"

subsection \<open>A struct whose setter validates\<close>

text \<open>
  A struct a caller can hand to \<^verbatim>\<open>Unmarshal\<close>: the fields of \<^verbatim>\<open>Person\<close> of the example
  program, and a setter for \<^verbatim>\<open>Age\<close> that reports a missing value with the constructor
  \<^verbatim>\<open>Invalid\<close> of the package, which returns a \<^verbatim>\<open>*ValidationError\<close>:
  \<^verbatim>\<open>
  func (p *Person) FormSetAge(vs []string) error {
      if len(vs) == 0 {
          return form.Invalid("age", "age is required")
      }
      n, err := strconv.ParseInt(vs[0], 0, 0)
      if err != nil {
          return err
      }
      p.Age = int(n)
      return nil
  }
  \<close>
\<close>

definition FormSetAge ::
  "'f fields \<Rightarrow> string list \<Rightarrow> panic + ('f fields \<times> error option)" where
  "FormSetAge f vs =
     (if length vs = 0 then
        Inr (f, Some (PtrValidationError \<lparr>Field = ''age'', Message = ''age is required''\<rparr>))
      else (case ParseInt (vs ! 0) of
              Inl err \<Rightarrow> Inr (f, Some err)
            | Inr n \<Rightarrow> Inr (f(''Age'' := VInt n), None)))"

definition PersonWithSetter :: "'f StructType" where
  "PersonWithSetter =
     \<lparr>Fields =
        [\<lparr>sfName = ''FirstName'', sfPkgPath = [], sfType = TString, sfTag = ''first_name''\<rparr>,
         \<lparr>sfName = ''LastName'', sfPkgPath = [], sfType = TString, sfTag = ''last_name''\<rparr>,
         \<lparr>sfName = ''Age'', sfPkgPath = [], sfType = TInt, sfTag = ''age''\<rparr>],
      MethodByName = (\<lambda>name. if name = ''FormSetAge'' then Some (SetterFunc FormSetAge) else None)\<rparr>"

definition zeroPerson :: "'f fields" where
  "zeroPerson = (\<lambda>name. if name = ''Age'' then VInt 0 else VString [])"

subsection \<open>A struct with an unexported field\<close>

text \<open>
  \<^verbatim>\<open>type record struct { zip int }\<close> in a package \<^verbatim>\<open>main\<close>: one unexported field
  without a tag, which the key \<^verbatim>\<open>zip\<close> resolves to, and no methods.
\<close>

definition UnexportedZip :: "'f StructType" where
  "UnexportedZip =
     \<lparr>Fields = [\<lparr>sfName = ''zip'', sfPkgPath = ''main'', sfType = TInt, sfTag = []\<rparr>],
      MethodByName = (\<lambda>name. None)\<rparr>"

definition zeroZip :: "'f fields" where
  "zeroZip = (\<lambda>name. VInt 0)"

section \<open>Properties\<close>

subsection \<open>Auxiliary facts\<close>

lemma Split_not_Nil: "Split s sep \<noteq> []"
  by (induction s) (auto split: list.splits)

lemma parseTag_fold:
  "Split s CHR '','' = n # rest \<Longrightarrow> parseTag s = foldl tagPart (tagHead n) rest"
  by (simp add: parseTag_def tagHead_def zeroTag_def)

lemma fold_keeps:
  "Name (foldl tagPart t ps) = Name t \<and> Ignore (foldl tagPart t ps) = Ignore t
   \<and> Group (foldl tagPart t ps) = Group t \<and> Tag.more (foldl tagPart t ps) = Tag.more t"
  by (induction ps rule: rev_induct) (simp_all add: tagPart_def)

lemma fold_Omit: "Omit (foldl tagPart t ps) = (Omit t \<or> ''omitempty'' \<in> set ps)"
  by (induction ps rule: rev_induct) (auto simp: tagPart_def)

lemma prefix_segment: "HasPrefix p ''prefix='' \<Longrightarrow> \<not> HasPrefix p ''suffix='' \<and> p \<noteq> ''omitempty''"
  by (cases p) (auto simp: HasPrefix_def)

lemma suffix_segment: "HasPrefix p ''suffix='' \<Longrightarrow> p \<noteq> ''omitempty''"
  by (cases p) (auto simp: HasPrefix_def)

lemma fold_Prefix:
  "Prefix (foldl tagPart t ps) =
     (if filter (\<lambda>p. HasPrefix p ''prefix='') ps = [] then Prefix t
      else TrimPrefix (last (filter (\<lambda>p. HasPrefix p ''prefix='') ps)) ''prefix='')"
proof (induction ps rule: rev_induct)
  case Nil
  show ?case by simp
next
  case (snoc p ps)
  show ?case
  proof (cases "HasPrefix p ''prefix=''")
    case True
    then have "p \<noteq> ''omitempty''" using prefix_segment by blast
    with True show ?thesis by (simp add: tagPart_def)
  next
    case False
    with snoc show ?thesis by (simp add: tagPart_def)
  qed
qed

lemma fold_Suffix:
  "Suffix (foldl tagPart t ps) =
     (if filter (\<lambda>p. HasPrefix p ''suffix='') ps = [] then Suffix t
      else TrimPrefix (last (filter (\<lambda>p. HasPrefix p ''suffix='') ps)) ''suffix='')"
proof (induction ps rule: rev_induct)
  case Nil
  show ?case by simp
next
  case (snoc p ps)
  show ?case
  proof (cases "HasPrefix p ''suffix=''")
    case True
    then have "p \<noteq> ''omitempty''" "\<not> HasPrefix p ''prefix=''" using prefix_segment suffix_segment by blast+
    with True show ?thesis by (simp add: tagPart_def)
  next
    case False
    with snoc show ?thesis by (simp add: tagPart_def)
  qed
qed

lemma last_filter_perm:
  assumes "mset qs = mset ps"
    and "\<forall>p \<in> set ps. \<forall>q \<in> set ps. P p \<and> P q \<longrightarrow> p = q"
  shows "(if filter P qs = [] then d else g (last (filter P qs)))
       = (if filter P ps = [] then d else g (last (filter P ps)))"
proof -
  have s: "set qs = set ps" using assms(1) by (rule mset_eq_setD)
  have sf: "set (filter P qs) = set (filter P ps)" using s by simp
  show ?thesis
  proof (cases "filter P ps = []")
    case True
    then have "filter P qs = []" using sf by (metis set_empty)
    with True show ?thesis by simp
  next
    case False
    then have ne: "filter P qs \<noteq> []" using sf by (metis set_empty)
    have "last (filter P qs) \<in> set (filter P qs)" using ne by (rule last_in_set)
    moreover have "last (filter P ps) \<in> set (filter P ps)" using False by (rule last_in_set)
    ultimately have "last (filter P qs) = last (filter P ps)" using assms(2) s by auto
    with False ne show ?thesis by simp
  qed
qed

lemma fold_perm:
  assumes "conflictFree ps" and "mset qs = mset ps"
  shows "foldl tagPart t qs = foldl tagPart t ps"
proof -
  have s: "set qs = set ps" using assms(2) by (rule mset_eq_setD)
  have cp: "\<forall>p \<in> set ps. \<forall>q \<in> set ps. HasPrefix p ''prefix='' \<and> HasPrefix q ''prefix='' \<longrightarrow> p = q"
    using assms(1) prefix_segment unfolding conflictFree_def sameSlot_def by blast
  have cs: "\<forall>p \<in> set ps. \<forall>q \<in> set ps. HasPrefix p ''suffix='' \<and> HasPrefix q ''suffix='' \<longrightarrow> p = q"
    using assms(1) suffix_segment unfolding conflictFree_def sameSlot_def by blast
  have "Prefix (foldl tagPart t qs) = Prefix (foldl tagPart t ps)"
    unfolding fold_Prefix by (rule last_filter_perm [OF assms(2) cp])
  moreover have "Suffix (foldl tagPart t qs) = Suffix (foldl tagPart t ps)"
    unfolding fold_Suffix by (rule last_filter_perm [OF assms(2) cs])
  moreover have "Omit (foldl tagPart t qs) = Omit (foldl tagPart t ps)"
    by (simp add: fold_Omit s)
  ultimately show ?thesis
    by (intro Tag.equality) (simp_all add: fold_keeps)
qed

lemmas tag_defs = parseTag_def tagPart_def tagHead_def zeroTag_def HasPrefix_def TrimPrefix_def

lemmas strconv_defs = ParseInt_def ParseUint_def parseUint_def prefixBase_def digitOf_def lower_def
  IntSize_def maxUint64_def ParseBool_def

lemmas assign_defs = assignToStructField_def assignToInt_def assignToUint_def assignToFloat_def
  SetValue_def SetInt_def SetUint_def SetFloat_def CanSet_def empty_def index0_def
  isString_def isInt_def isUint_def isFloat_def isBool_def isSlice_def cannotSet_def

lemmas struct_defs = assignToStruct_def assignMatched_def runValidator_def fieldTag_def
  FieldByName_def callFormMethod_def

lemmas walk_defs = Unmarshal_def walk_def findIn_def cannotStore_def

lemma assignLoop_findField:
  "assignLoop fl ptrt fs rv key values =
     (case findField fs key of
        None \<Rightarrow> Inr (rv, None)
      | Some f \<Rightarrow> assignMatched fl ptrt rv f values)"
  by (induction fs) simp_all

subsection \<open>The tag parser\<close>

text \<open>
  C9. \<^verbatim>\<open>parseTag\<close> has no failure: it returns a tag for every string. Parsing
  \<^verbatim>\<open>name,prefix=pre_,suffix=suf_,omitempty\<close> yields the name \<^verbatim>\<open>name\<close>, the prefix
  \<^verbatim>\<open>pre_\<close>, the suffix \<^verbatim>\<open>suf_\<close> and \<^verbatim>\<open>Omit\<close>. Each segment after the first is matched on
  its own, wherever it stands: \<^verbatim>\<open>Omit\<close> holds exactly when \<^verbatim>\<open>omitempty\<close> is among them, the
  prefix is the value of the last \<^verbatim>\<open>prefix=\<close> segment and the suffix that of the last
  \<^verbatim>\<open>suffix=\<close> segment (of duplicates the last wins), empty when there is none, and the
  first segment alone gives the name and the marks \<^verbatim>\<open>Ignore\<close> and \<^verbatim>\<open>Group\<close>. So two tags
  with the same first segment whose other segments are the same up to their order parse
  to the same tag, as long as no two different \<^verbatim>\<open>prefix=\<close> segments and no two different
  \<^verbatim>\<open>suffix=\<close> segments are among them. A segment that is neither \<^verbatim>\<open>omitempty\<close> nor starts
  with \<^verbatim>\<open>prefix=\<close> or \<^verbatim>\<open>suffix=\<close> leaves the tag unchanged.
\<close>

theorem parseTag_segments:
  "parseTag ''name,prefix=pre_,suffix=suf_,omitempty'' =
     \<lparr>Name = ''name'', Prefix = ''pre_'', Suffix = ''suf_'', Omit = True, Ignore = False, Group = False\<rparr>
   \<and> (Split s CHR '','' = n # ps \<longrightarrow>
        parseTag s =
          \<lparr>Name = (if n = ''+'' \<or> n = ''-'' then [] else n),
           Prefix = lastValue ''prefix='' ps,
           Suffix = lastValue ''suffix='' ps,
           Omit = (''omitempty'' \<in> set ps),
           Ignore = (n = ''-''),
           Group = (n = ''+'')\<rparr>)
   \<and> (Split s CHR '','' = n # ps \<and> Split s' CHR '','' = n # qs \<and> mset qs = mset ps \<and> conflictFree ps
        \<longrightarrow> parseTag s' = parseTag s)
   \<and> (unrecognized p \<longrightarrow> tagPart t p = t)"
proof (intro conjI impI)
  show "parseTag ''name,prefix=pre_,suffix=suf_,omitempty'' =
     \<lparr>Name = ''name'', Prefix = ''pre_'', Suffix = ''suf_'', Omit = True, Ignore = False, Group = False\<rparr>"
    by (simp add: tag_defs)
next
  assume sp: "Split s CHR '','' = n # ps"
  let ?t = "foldl tagPart (tagHead n) ps"
  have p: "parseTag s = ?t" using sp by (rule parseTag_fold)
  have "Name ?t = (if n = ''+'' \<or> n = ''-'' then [] else n)"
    and "Ignore ?t = (n = ''-'')" and "Group ?t = (n = ''+'')"
    by (simp_all add: fold_keeps tagHead_def zeroTag_def)
  moreover have "Prefix ?t = lastValue ''prefix='' ps"
    by (simp add: fold_Prefix lastValue_def tagHead_def zeroTag_def)
  moreover have "Suffix ?t = lastValue ''suffix='' ps"
    by (simp add: fold_Suffix lastValue_def tagHead_def zeroTag_def)
  moreover have "Omit ?t = (''omitempty'' \<in> set ps)"
    by (simp add: fold_Omit tagHead_def zeroTag_def)
  ultimately show "parseTag s =
          \<lparr>Name = (if n = ''+'' \<or> n = ''-'' then [] else n),
           Prefix = lastValue ''prefix='' ps,
           Suffix = lastValue ''suffix='' ps,
           Omit = (''omitempty'' \<in> set ps),
           Ignore = (n = ''-''),
           Group = (n = ''+'')\<rparr>"
    unfolding p by (intro Tag.equality) (simp_all add: fold_keeps tagHead_def zeroTag_def)
next
  assume a: "Split s CHR '','' = n # ps \<and> Split s' CHR '','' = n # qs \<and> mset qs = mset ps \<and> conflictFree ps"
  then show "parseTag s' = parseTag s"
    by (simp add: parseTag_fold fold_perm)
next
  assume "unrecognized p"
  then show "tagPart t p = t" by (simp add: unrecognized_def tagPart_def)
qed

text \<open>
  C9 at a tag with two different \<^verbatim>\<open>prefix=\<close> segments, where the last one wins, at
  the tag of the example with its segments in another order, and at the unrecognized
  segment \<^verbatim>\<open>required\<close>.
\<close>

theorem parseTag_segments_witness:
  "parseTag ''n,prefix=a,omitempty,prefix=b'' =
     \<lparr>Name = ''n'', Prefix = ''b'', Suffix = [], Omit = True, Ignore = False, Group = False\<rparr>
   \<and> parseTag ''name,omitempty,suffix=suf_,prefix=pre_'' = parseTag ''name,prefix=pre_,suffix=suf_,omitempty''
   \<and> tagPart (tagHead ''name'') ''required'' = tagHead ''name''"
proof -
  have c: "conflictFree [''prefix=pre_'', ''suffix=suf_'', ''omitempty'']"
    by (simp add: conflictFree_def sameSlot_def HasPrefix_def)
  have u: "unrecognized ''required''"
    by (simp add: unrecognized_def HasPrefix_def)
  have m: "mset [''omitempty'', ''suffix=suf_'', ''prefix=pre_''] = mset [''prefix=pre_'', ''suffix=suf_'', ''omitempty'']"
    by simp
  have s1: "Split ''name,prefix=pre_,suffix=suf_,omitempty'' CHR '','' = ''name'' # [''prefix=pre_'', ''suffix=suf_'', ''omitempty'']"
    by simp
  have s2: "Split ''name,omitempty,suffix=suf_,prefix=pre_'' CHR '','' = ''name'' # [''omitempty'', ''suffix=suf_'', ''prefix=pre_'']"
    by simp
  have s3: "Split ''n,prefix=a,omitempty,prefix=b'' CHR '','' = ''n'' # [''prefix=a'', ''omitempty'', ''prefix=b'']"
    by simp
  have l: "lastValue ''prefix='' [''prefix=a'', ''omitempty'', ''prefix=b''] = ''b''
      \<and> lastValue ''suffix='' [''prefix=a'', ''omitempty'', ''prefix=b''] = []"
    by (simp add: lastValue_def HasPrefix_def TrimPrefix_def)
  from parseTag_segments [of "''name,prefix=pre_,suffix=suf_,omitempty''" "''name''"
      "[''prefix=pre_'', ''suffix=suf_'', ''omitempty'']" "''name,omitempty,suffix=suf_,prefix=pre_''"
      "[''omitempty'', ''suffix=suf_'', ''prefix=pre_'']" "''required''" "tagHead ''name''"]
  have a: "parseTag ''name,omitempty,suffix=suf_,prefix=pre_'' = parseTag ''name,prefix=pre_,suffix=suf_,omitempty''
      \<and> tagPart (tagHead ''name'') ''required'' = tagHead ''name''"
    using c u m s1 s2 by blast
  from parseTag_segments [of "''n,prefix=a,omitempty,prefix=b''" "''n''"
      "[''prefix=a'', ''omitempty'', ''prefix=b'']"] s3
  have b: "parseTag ''n,prefix=a,omitempty,prefix=b'' =
     \<lparr>Name = ''n'', Prefix = ''b'', Suffix = [], Omit = True, Ignore = False, Group = False\<rparr>"
    using l by simp
  show ?thesis using a b by simp
qed

subsection \<open>Facts about the scan and the coercions\<close>

lemma findIn_Struct:
  "findIn fl tname (Struct ptrt st) key vals =
     (case findField (Fields ptrt) key of
        None \<Rightarrow> Inr (Struct ptrt st, None)
      | Some f \<Rightarrow>
          (case assignMatched fl ptrt st f vals of
             Inl p \<Rightarrow> Inl p
           | Inr (st', e) \<Rightarrow> Inr (Struct ptrt st', e)))"
  by (simp add: findIn_def assignToStruct_def assignLoop_findField split: option.splits)

lemma walkLoop_encountered:
  "fatalFree fl tname val v \<Longrightarrow>
   errorOf (walkLoop fl tname val verrs v) =
     Inr (if verrs @ encountered fl tname val v = [] then None
          else Some (CompoundValidationError (verrs @ encountered fl tname val v)))"
proof (induction v arbitrary: val verrs)
  case Nil
  show ?case by (simp add: errorOf_def)
next
  case (Cons kv v)
  obtain key vals where kv: "kv = (key, vals)" by (cases kv)
  show ?case
  proof (cases "findIn fl tname val key vals")
    case (Inl p)
    with Cons.prems kv show ?thesis by simp
  next
    case (Inr r)
    obtain val' eo where r: "r = (val', eo)" by (cases r)
    show ?thesis
    proof (cases eo)
      case None
      with Cons.prems kv Inr r have "fatalFree fl tname val' v" by simp
      from Cons.IH [OF this, of verrs] show ?thesis using kv Inr r None by simp
    next
      case (Some e)
      show ?thesis
      proof (cases e)
        case (PtrValidationError ve)
        with Cons.prems kv Inr r Some have "fatalFree fl tname val' v" by simp
        from Cons.IH [OF this, of "verrs @ [ve]"] show ?thesis
          using kv Inr r Some PtrValidationError by simp
      qed (use Cons.prems kv Inr r Some in simp_all)
    qed
  qed
qed

lemma walkLoop_fatal:
  assumes "findIn fl tname val key vals = Inr (val', Some e)" and "\<not> isPtrValidationError e"
  shows "walkLoop fl tname val verrs ((key, vals) # v) = Inr (val', Some e)"
  using assms by (cases e) simp_all

lemma walkLoop_validation:
  assumes "findIn fl tname val key vals = Inr (val', Some (PtrValidationError ve))"
  shows "walkLoop fl tname val verrs ((key, vals) # v) = walkLoop fl tname val' (verrs @ [ve]) v"
  using assms by simp

lemma walkLoop_nil:
  assumes "findIn fl tname val key vals = Inr (val', None)"
  shows "walkLoop fl tname val verrs ((key, vals) # v) = walkLoop fl tname val' verrs v"
  using assms by simp

lemma Unmarshal_Pointer:
  "Unmarshal fl v (Pointer tname val) =
     (case walkLoop fl tname val [] v of Inl p \<Rightarrow> Inl p | Inr (val', e) \<Rightarrow> Inr (Pointer tname val', e))"
  by (simp add: Unmarshal_def walk_def)

lemma chosen_index0:
  "(if \<not> empty val then index0 val else Inr ''0'') = Inr (chosenInput val)"
  by (cases val) (simp_all add: empty_def index0_def chosenInput_def)

lemma numeric_disjoint:
  "isInt t \<Longrightarrow> \<not> isString t \<and> \<not> isUint t \<and> \<not> isFloat t"
  "isUint t \<Longrightarrow> \<not> isString t \<and> \<not> isInt t \<and> \<not> isFloat t"
  "isFloat t \<Longrightarrow> \<not> isString t \<and> \<not> isInt t \<and> \<not> isUint t"
  by (auto simp: isString_def isInt_def isUint_def isFloat_def)

lemma assignToStructField_parse_failure:
  assumes num: "isInt (vtype rv) \<or> isUint (vtype rv) \<or> isFloat (vtype rv)"
    and cs: "CanSet rv"
    and pf: "parseFailure fl (vtype rv) (chosenInput vals) = Some e"
  shows "assignToStructField fl rv vals = Inr (rv, Some e)"
proof -
  consider (i) "isInt (vtype rv)" | (u) "isUint (vtype rv)" | (f) "isFloat (vtype rv)"
    using num by blast
  then show ?thesis
  proof cases
    case i
    with pf have "ParseInt (chosenInput vals) = Inl e"
      by (simp add: parseFailure_def split: sum.splits)
    with i cs numeric_disjoint(1) [OF i] show ?thesis
      by (simp add: assignToStructField_def chosen_index0 assignToInt_def)
  next
    case u
    with pf numeric_disjoint(2) [OF u] have "ParseUint (chosenInput vals) = Inl e"
      by (simp add: parseFailure_def split: sum.splits)
    with u cs numeric_disjoint(2) [OF u] show ?thesis
      by (simp add: assignToStructField_def chosen_index0 assignToUint_def)
  next
    case f
    with pf numeric_disjoint(3) [OF f] have "ParseFloat fl (chosenInput vals) = Inl e"
      by (simp add: parseFailure_def split: sum.splits)
    with f cs numeric_disjoint(3) [OF f] show ?thesis
      by (simp add: assignToStructField_def chosen_index0 assignToFloat_def)
  qed
qed

lemma assignToStructField_unsettable:
  assumes num: "isInt (vtype rv) \<or> isUint (vtype rv) \<or> isFloat (vtype rv)"
    and ro: "\<not> CanSet rv"
  shows "assignToStructField fl rv vals = Inr (rv, Some (cannotSet (vtype rv)))"
proof -
  consider (i) "isInt (vtype rv)" | (u) "isUint (vtype rv)" | (f) "isFloat (vtype rv)"
    using num by blast
  then show ?thesis
  proof cases
    case i
    with ro numeric_disjoint(1) [OF i] show ?thesis
      by (simp add: assignToStructField_def chosen_index0 assignToInt_def)
  next
    case u
    with ro numeric_disjoint(2) [OF u] show ?thesis
      by (simp add: assignToStructField_def chosen_index0 assignToUint_def)
  next
    case f
    with ro numeric_disjoint(3) [OF f] show ?thesis
      by (simp add: assignToStructField_def chosen_index0 assignToFloat_def)
  qed
qed

lemma ParseInt_1999: "ParseInt ''1999'' = Inr 1999"
  by (simp add: strconv_defs)

lemma ParseInt_0: "ParseInt ''0'' = Inr 0"
  by (simp add: strconv_defs)

lemma ParseUint_1999: "ParseUint ''1999'' = Inr 1999"
  by (simp add: strconv_defs)

lemma ParseUint_0: "ParseUint ''0'' = Inr 0"
  by (simp add: strconv_defs)

lemma SetInt_fits:
  assumes "isInt (vtype rv)" and "CanSet rv" and "- (2 ^ (bitSize (vtype rv) - 1)) \<le> x" and "x < 2 ^ (bitSize (vtype rv) - 1)"
  shows "SetInt rv x = Inr (rv\<lparr>vdata := VInt x\<rparr>)"
  using assms by (simp add: SetInt_def signed_take_bit_int_eq_self)

lemmas fixture_defs = FixtureAddress_def FormValidateState_def FormValidateStreet_def FormSetCity_def
  PersonWithSetter_def FormSetAge_def

lemmas run_defs = walk_defs struct_defs assign_defs strconv_defs tag_defs

lemma findField_Some: "findField fs key = Some f \<Longrightarrow> Name (fieldTag f) = key"
  by (induction fs) (auto split: if_splits)

lemma parseTag_Ignore: "Ignore (parseTag s) \<Longrightarrow> Name (parseTag s) = []"
proof -
  obtain n rest where sp: "Split s CHR '','' = n # rest"
    using Split_not_Nil by (cases "Split s CHR '',''") auto
  assume "Ignore (parseTag s)"
  then have "Ignore (tagHead n)" using sp by (simp add: parseTag_fold fold_keeps)
  then have "Name (tagHead n) = []" by (simp add: tagHead_def zeroTag_def split: if_splits)
  then show ?thesis using sp by (simp add: parseTag_fold fold_keeps)
qed

lemma ignored_only_by_empty_key:
  assumes "findField fs key = Some f" and "Ignore (fieldTag f)"
  shows "key = []"
proof -
  have "Ignore (parseTag (sfTag f))" and "fieldTag f = parseTag (sfTag f)"
    using assms(2) by (auto simp: fieldTag_def Let_def split: if_splits)
  then have "Name (fieldTag f) = []" using parseTag_Ignore by simp
  then show ?thesis using findField_Some [OF assms(1)] by simp
qed

subsection \<open>Validators and setters\<close>

text \<open>
  C1. Every validation failure met during one call of \<^verbatim>\<open>Unmarshal\<close> is collected.
  When the scan of the mapping meets no panic and no error of another type, the call
  returns the \<^verbatim>\<open>CompoundValidationError\<close> that holds exactly the validation failures
  met, in the order of the scan, and \<^verbatim>\<open>nil\<close> when there are none. When the validator of
  the field that a key resolves to fails, the key leaves the struct as the validator
  left it (neither the setter nor the coercion runs, so the field is not assigned),
  the failure is appended to the list, and the scan goes on with the remaining keys.
\<close>

theorem validation_failures_collected:
  "(fatalFree fl tname val v \<longrightarrow>
      errorOf (Unmarshal fl v (Pointer tname val)) =
        Inr (if encountered fl tname val v = [] then None
             else Some (CompoundValidationError (encountered fl tname val v))))
   \<and> (findField (Fields ptrt) key = Some f
        \<and> MethodByName ptrt (''FormValidate'' @ sfName f) = Some (ValidatorFunc g)
        \<and> g st vals = Inr (st1, Some ve) \<longrightarrow>
        findIn fl tname' (Struct ptrt st) key vals = Inr (Struct ptrt st1, Some (PtrValidationError ve))
        \<and> walkLoop fl tname' (Struct ptrt st) verrs ((key, vals) # w)
            = walkLoop fl tname' (Struct ptrt st1) (verrs @ [ve]) w)"
proof (intro conjI impI)
  assume "fatalFree fl tname val v"
  from walkLoop_encountered [OF this, of "[]"]
  show "errorOf (Unmarshal fl v (Pointer tname val)) =
        Inr (if encountered fl tname val v = [] then None
             else Some (CompoundValidationError (encountered fl tname val v)))"
    by (simp add: Unmarshal_Pointer errorOf_def split: sum.splits prod.splits)
next
  assume a: "findField (Fields ptrt) key = Some f
        \<and> MethodByName ptrt (''FormValidate'' @ sfName f) = Some (ValidatorFunc g)
        \<and> g st vals = Inr (st1, Some ve)"
  then show f: "findIn fl tname' (Struct ptrt st) key vals = Inr (Struct ptrt st1, Some (PtrValidationError ve))"
    by (simp add: findIn_Struct assignMatched_def runValidator_def callFormMethod_def)
  show "walkLoop fl tname' (Struct ptrt st) verrs ((key, vals) # w)
            = walkLoop fl tname' (Struct ptrt st1) (verrs @ [ve]) w"
    by (rule walkLoop_validation [OF f])
qed

text \<open>
  C1 on \<^verbatim>\<open>FixtureAddress\<close>, as in \<^verbatim>\<open>TestUnmarshalValidator\<close>: an empty state and the
  street \<^verbatim>\<open>FAIL\<close> give a compound error of two failures.
\<close>

theorem validation_failures_collected_witness:
  "errorOf (Unmarshal noFloats
      [(''state'', ['''']), (''street'', [''FAIL'']), (''zip'', [''60626''])]
      (Pointer [] (Struct FixtureAddress zeroAddress)))
     = Inr (Some (CompoundValidationError
         [\<lparr>Field = ''state'', Message = ''state is required''\<rparr>,
          \<lparr>Field = ''street'', Message = ''street cannot be FAIL''\<rparr>]))
   \<and> findIn noFloats [] (Struct FixtureAddress zeroAddress) ''state'' ['''']
     = Inr (Struct FixtureAddress zeroAddress,
            Some (PtrValidationError \<lparr>Field = ''state'', Message = ''state is required''\<rparr>))"
proof -
  let ?v = "[(''state'', ['''']), (''street'', [''FAIL'']), (''zip'', [''60626''])]"
  let ?f = "\<lparr>sfName = ''State'', sfPkgPath = [], sfType = TString, sfTag = ''state''\<rparr>"
  let ?ve = "\<lparr>Field = ''state'', Message = ''state is required''\<rparr>"
  have ff: "fatalFree noFloats [] (Struct FixtureAddress (zeroAddress :: unit fields)) ?v"
    by (simp add: run_defs fixture_defs)
  have enc: "encountered noFloats [] (Struct FixtureAddress (zeroAddress :: unit fields)) ?v
      = [?ve, \<lparr>Field = ''street'', Message = ''street cannot be FAIL''\<rparr>]"
    by (simp add: run_defs fixture_defs)
  have h: "findField (Fields (FixtureAddress :: unit StructType)) ''state'' = Some ?f
      \<and> MethodByName (FixtureAddress :: unit StructType) (''FormValidate'' @ sfName ?f)
          = Some (ValidatorFunc FormValidateState)
      \<and> FormValidateState (zeroAddress :: unit fields) [''''] = Inr (zeroAddress, Some ?ve)"
    by (simp add: fixture_defs fieldTag_def tag_defs)
  from validation_failures_collected [where fl = noFloats and tname = "[]" and val = "Struct FixtureAddress zeroAddress"
      and v = ?v and ptrt = FixtureAddress and key = "''state''" and f = ?f
      and g = FormValidateState and st = zeroAddress and vals = "['''']" and ?st1.0 = zeroAddress
      and ve = ?ve and tname' = "[]"]
  show ?thesis using ff enc h by simp
qed

text \<open>
  A setter whose error has a dynamic type other than \<^verbatim>\<open>*ValidationError\<close> stops the
  scan at its key: whatever validation failures were collected before and whatever keys
  remain, the call returns that very error, not wrapped, with the struct as the setter
  left it.
\<close>

lemma setter_error_halts:
  assumes ff: "findField (Fields ptrt) key = Some f"
    and val: "runValidator ptrt f st vals = Inr (st1, None)"
    and set: "MethodByName ptrt (''FormSet'' @ sfName f) = Some m"
    and call: "callFormMethod m st1 vals = Inr (st2, Some e)"
    and fatal: "\<not> isPtrValidationError e"
  shows "walkLoop fl tname (Struct ptrt st) verrs ((key, vals) # v) = Inr (Struct ptrt st2, Some e)
    \<and> Unmarshal fl ((key, vals) # v) (Pointer tname (Struct ptrt st))
        = Inr (Pointer tname (Struct ptrt st2), Some e)"
proof -
  have "assignMatched fl ptrt st f vals = Inr (st2, Some e)"
    using val set call by (simp add: assignMatched_def)
  then have fi: "findIn fl tname (Struct ptrt st) key vals = Inr (Struct ptrt st2, Some e)"
    using ff by (simp add: findIn_Struct)
  have w: "\<And>vs. walkLoop fl tname (Struct ptrt st) vs ((key, vals) # v) = Inr (Struct ptrt st2, Some e)"
    by (rule walkLoop_fatal [OF fi fatal])
  show ?thesis using w by (simp add: Unmarshal_Pointer)
qed

text \<open>
  C2 at a setter that returns a \<^verbatim>\<open>*ValidationError\<close>. Decoding the mapping with the
  keys \<^verbatim>\<open>age\<close>, without a value, and \<^verbatim>\<open>first_name\<close> into \<open>PersonWithSetter\<close>: the setter
  of \<^verbatim>\<open>Age\<close> returns a non-nil error, yet the call does not return that error at once.
  It processes the key \<^verbatim>\<open>first_name\<close> after it, which sets \<^verbatim>\<open>FirstName\<close>, and returns
  the error of the setter wrapped in a \<^verbatim>\<open>CompoundValidationError\<close>. The comment of
  \<^verbatim>\<open>Unmarshal\<close> says that unmarshaling is halted when a setter fails.
\<close>

theorem setter_validation_error_collected:
  "FormSetAge zeroPerson [] =
     Inr (zeroPerson, Some (PtrValidationError \<lparr>Field = ''age'', Message = ''age is required''\<rparr>))
   \<and> errorOf (Unmarshal noFloats [(''age'', []), (''first_name'', [''Batty''])]
      (Pointer [] (Struct PersonWithSetter zeroPerson)))
     = Inr (Some (CompoundValidationError [\<lparr>Field = ''age'', Message = ''age is required''\<rparr>]))
   \<and> fieldAfter (Unmarshal noFloats [(''age'', []), (''first_name'', [''Batty''])]
      (Pointer [] (Struct PersonWithSetter zeroPerson))) ''FirstName'' = Some (VString ''Batty'')"
  by (simp add: run_defs fixture_defs errorOf_def fieldAfter_def)

text \<open>
  C10. \<^verbatim>\<open>walk\<close> classifies the error of a key by its dynamic type alone. Whatever
  produced it, a \<^verbatim>\<open>*ValidationError\<close> returned by \<^verbatim>\<open>findIn\<close> is appended to the list
  and the scan goes on with the remaining keys; a non-nil error of any other type is
  returned at once. In particular, when a setter returns a \<^verbatim>\<open>*ValidationError\<close>, the
  scan goes on.
\<close>

theorem error_classified_by_type:
  "(findIn fl tname val1 key1 vals1 = Inr (val1', Some (PtrValidationError ve1)) \<longrightarrow>
      walkLoop fl tname val1 verrs1 ((key1, vals1) # v1) = walkLoop fl tname val1' (verrs1 @ [ve1]) v1)
   \<and> (findIn fl tname val2 key2 vals2 = Inr (val2', Some e2) \<and> \<not> isPtrValidationError e2 \<longrightarrow>
      walkLoop fl tname val2 verrs2 ((key2, vals2) # v2) = Inr (val2', Some e2))
   \<and> (findField (Fields ptrt) key = Some f
       \<and> runValidator ptrt f st vals = Inr (st1, None)
       \<and> MethodByName ptrt (''FormSet'' @ sfName f) = Some m
       \<and> callFormMethod m st1 vals = Inr (st2, Some (PtrValidationError ve)) \<longrightarrow>
      walkLoop fl tname (Struct ptrt st) verrs ((key, vals) # v)
        = walkLoop fl tname (Struct ptrt st2) (verrs @ [ve]) v)"
proof (intro conjI impI)
  assume "findIn fl tname val1 key1 vals1 = Inr (val1', Some (PtrValidationError ve1))"
  then show "walkLoop fl tname val1 verrs1 ((key1, vals1) # v1) = walkLoop fl tname val1' (verrs1 @ [ve1]) v1"
    by (rule walkLoop_validation)
next
  assume "findIn fl tname val2 key2 vals2 = Inr (val2', Some e2) \<and> \<not> isPtrValidationError e2"
  then show "walkLoop fl tname val2 verrs2 ((key2, vals2) # v2) = Inr (val2', Some e2)"
    using walkLoop_fatal by blast
next
  assume a: "findField (Fields ptrt) key = Some f
       \<and> runValidator ptrt f st vals = Inr (st1, None)
       \<and> MethodByName ptrt (''FormSet'' @ sfName f) = Some m
       \<and> callFormMethod m st1 vals = Inr (st2, Some (PtrValidationError ve))"
  then have "assignMatched fl ptrt st f vals = Inr (st2, Some (PtrValidationError ve))"
    by (simp add: assignMatched_def)
  then have "findIn fl tname (Struct ptrt st) key vals = Inr (Struct ptrt st2, Some (PtrValidationError ve))"
    using a by (simp add: findIn_Struct)
  then show "walkLoop fl tname (Struct ptrt st) verrs ((key, vals) # v)
        = walkLoop fl tname (Struct ptrt st2) (verrs @ [ve]) v"
    by (rule walkLoop_validation)
qed

text \<open>
  C10 on the setter of \<open>PersonWithSetter\<close>, whose \<^verbatim>\<open>*ValidationError\<close> lets the scan go on, and
  on the setter of \<^verbatim>\<open>FixtureAddress\<close>, whose error stops it.
\<close>

theorem error_classified_by_type_witness:
  "walkLoop noFloats [] (Struct PersonWithSetter zeroPerson) [] [(''age'', []), (''first_name'', [''Batty''])]
     = walkLoop noFloats [] (Struct PersonWithSetter zeroPerson) [\<lparr>Field = ''age'', Message = ''age is required''\<rparr>]
         [(''first_name'', [''Batty''])]
   \<and> walkLoop noFloats [] (Struct FixtureAddress zeroAddress) [] [(''city'', []), (''zip'', [''60626''])]
     = Inr (Struct FixtureAddress zeroAddress, Some (ErrorString ''city is required''))"
proof -
  let ?ve = "\<lparr>Field = ''age'', Message = ''age is required''\<rparr>"
  let ?f = "\<lparr>sfName = ''Age'', sfPkgPath = [], sfType = TInt, sfTag = ''age''\<rparr>"
  have h1: "findIn noFloats [] (Struct PersonWithSetter zeroPerson) ''age'' []
      = Inr (Struct PersonWithSetter zeroPerson, Some (PtrValidationError ?ve))"
    by (simp add: run_defs fixture_defs)
  have h2: "findIn noFloats [] (Struct FixtureAddress zeroAddress) ''city'' []
      = Inr (Struct FixtureAddress zeroAddress, Some (ErrorString ''city is required''))
     \<and> \<not> isPtrValidationError (ErrorString ''city is required'')"
    by (simp add: run_defs fixture_defs)
  have h3: "findField (Fields (PersonWithSetter :: unit StructType)) ''age'' = Some ?f
       \<and> runValidator PersonWithSetter ?f (zeroPerson :: unit fields) [] = Inr (zeroPerson, None)
       \<and> MethodByName (PersonWithSetter :: unit StructType) (''FormSet'' @ sfName ?f) = Some (SetterFunc FormSetAge)
       \<and> callFormMethod (SetterFunc FormSetAge) (zeroPerson :: unit fields) []
           = Inr (zeroPerson, Some (PtrValidationError ?ve))"
    by (simp add: runValidator_def callFormMethod_def fixture_defs fieldTag_def tag_defs)
  from error_classified_by_type [where fl = noFloats and tname = "[]"
      and ?val1.0 = "Struct PersonWithSetter zeroPerson" and ?key1.0 = "''age''" and ?vals1.0 = "[]"
      and val1' = "Struct PersonWithSetter zeroPerson" and ?ve1.0 = ?ve and ?verrs1.0 = "[]"
      and ?v1.0 = "[(''first_name'', [''Batty''])]"
      and ?val2.0 = "Struct FixtureAddress zeroAddress" and ?key2.0 = "''city''" and ?vals2.0 = "[]"
      and val2' = "Struct FixtureAddress zeroAddress" and ?e2.0 = "ErrorString ''city is required''"
      and ?verrs2.0 = "[]" and ?v2.0 = "[(''zip'', [''60626''])]"
      and ptrt = PersonWithSetter and key = "''age''" and f = ?f and st = zeroPerson and vals = "[]"
      and ?st1.0 = zeroPerson and m = "SetterFunc FormSetAge" and ?st2.0 = zeroPerson and ve = ?ve
      and verrs = "[]" and v = "[(''first_name'', [''Batty''])]"]
  show ?thesis using h1 h2 h3 by simp
qed

subsection \<open>Coercions\<close>

text \<open>
  C3, as the code has it. Take a field of a signed or unsigned integer kind or of a
  floating-point kind that has no setter, reached by its key, whose validator is absent
  or returns \<^verbatim>\<open>nil\<close>, and let the chosen input string (\<^verbatim>\<open>values[0]\<close>, or \<^verbatim>\<open>"0"\<close> on empty
  input) not parse. Then the call does not return the parse failure and does not halt:
  \<^verbatim>\<open>assignToStruct\<close> drops the error of the coercion, so no error is reported for the
  key, the struct stays as the validator left it, the scan goes on with the remaining
  keys, and the call returns what it returns on the mapping without that key. The
  coercion \<^verbatim>\<open>assignToStructField\<close> itself leaves the field as it was and returns the
  parse failure when the field is exported, and the error \<^verbatim>\<open>cannot set\<close> when it is not.
\<close>

theorem parse_failure_dropped:
  assumes ff: "findField (Fields ptrt) key = Some f"
    and num: "isInt (sfType f) \<or> isUint (sfType f) \<or> isFloat (sfType f)"
    and val: "runValidator ptrt f st vals = Inr (st1, None)"
    and noset: "MethodByName ptrt (''FormSet'' @ sfName f) = None"
    and pf: "parseFailure fl (sfType f) (chosenInput vals) = Some e"
  shows "walkLoop fl tname (Struct ptrt st) verrs ((key, vals) # v)
        = walkLoop fl tname (Struct ptrt st1) verrs v
    \<and> Unmarshal fl ((key, vals) # v) (Pointer tname (Struct ptrt st))
        = Unmarshal fl v (Pointer tname (Struct ptrt st1))
    \<and> (sfPkgPath f = [] \<longrightarrow>
          assignToStructField fl (FieldByName st1 f) vals = Inr (FieldByName st1 f, Some e))
    \<and> (sfPkgPath f \<noteq> [] \<longrightarrow>
          assignToStructField fl (FieldByName st1 f) vals
            = Inr (FieldByName st1 f, Some (cannotSet (sfType f))))"
proof -
  have num': "isInt (vtype (FieldByName st1 f)) \<or> isUint (vtype (FieldByName st1 f))
      \<or> isFloat (vtype (FieldByName st1 f))"
    using num by (simp add: FieldByName_def)
  have a: "sfPkgPath f = [] \<longrightarrow>
      assignToStructField fl (FieldByName st1 f) vals = Inr (FieldByName st1 f, Some e)"
  proof
    assume "sfPkgPath f = []"
    then have "CanSet (FieldByName st1 f)" by (simp add: FieldByName_def CanSet_def)
    moreover have "parseFailure fl (vtype (FieldByName st1 f)) (chosenInput vals) = Some e"
      using pf by (simp add: FieldByName_def)
    ultimately show "assignToStructField fl (FieldByName st1 f) vals = Inr (FieldByName st1 f, Some e)"
      using num' by (intro assignToStructField_parse_failure)
  qed
  have b: "sfPkgPath f \<noteq> [] \<longrightarrow>
      assignToStructField fl (FieldByName st1 f) vals
        = Inr (FieldByName st1 f, Some (cannotSet (sfType f)))"
  proof
    assume "sfPkgPath f \<noteq> []"
    then have "\<not> CanSet (FieldByName st1 f)" by (simp add: FieldByName_def CanSet_def)
    from assignToStructField_unsettable [OF num' this, of fl vals]
    show "assignToStructField fl (FieldByName st1 f) vals
        = Inr (FieldByName st1 f, Some (cannotSet (sfType f)))"
      by (simp add: FieldByName_def)
  qed
  obtain e' where c: "assignToStructField fl (FieldByName st1 f) vals = Inr (FieldByName st1 f, Some e')"
    using a b by (cases "sfPkgPath f = []") auto
  have "assignMatched fl ptrt st f vals = Inr (st1, None)"
    using val noset c by (simp add: assignMatched_def FieldByName_def)
  then have fi: "findIn fl tname (Struct ptrt st) key vals = Inr (Struct ptrt st1, None)"
    using ff by (simp add: findIn_Struct)
  have w: "\<And>vs. walkLoop fl tname (Struct ptrt st) vs ((key, vals) # v)
        = walkLoop fl tname (Struct ptrt st1) vs v"
    by (rule walkLoop_nil [OF fi])
  show ?thesis using a b w by (simp add: Unmarshal_Pointer)
qed

text \<open>
  C3 on the field \<^verbatim>\<open>Zip int\<close> of \<^verbatim>\<open>FixtureAddress\<close> and the value \<^verbatim>\<open>abc\<close>, and on an
  unexported field \<^verbatim>\<open>zip int\<close> of a struct without methods.
\<close>

theorem parse_failure_dropped_witness:
  "Unmarshal noFloats [(''zip'', [''abc'']), (''street'', [''1234 Long St.''])]
      (Pointer [] (Struct FixtureAddress zeroAddress))
   = Unmarshal noFloats [(''street'', [''1234 Long St.''])] (Pointer [] (Struct FixtureAddress zeroAddress))
   \<and> assignToStructField noFloats \<lparr>vtype = TInt, flagRO = False, vdata = VInt 0\<rparr> [''abc'']
   = Inr (\<lparr>vtype = TInt, flagRO = False, vdata = VInt 0\<rparr>, Some (NumError ''ParseInt'' ''abc'' ErrSyntax))
   \<and> Unmarshal noFloats [(''zip'', [''abc''])] (Pointer [] (Struct UnexportedZip zeroZip))
   = Unmarshal noFloats [] (Pointer [] (Struct UnexportedZip zeroZip))
   \<and> assignToStructField noFloats \<lparr>vtype = TInt, flagRO = True, vdata = VInt 0\<rparr> [''abc'']
   = Inr (\<lparr>vtype = TInt, flagRO = True, vdata = VInt 0\<rparr>, Some (cannotSet TInt))"
proof -
  let ?f = "\<lparr>sfName = ''Zip'', sfPkgPath = [], sfType = TInt, sfTag = ''zip''\<rparr>"
  let ?g = "\<lparr>sfName = ''zip'', sfPkgPath = ''main'', sfType = TInt, sfTag = []\<rparr>"
  have pf: "parseFailure noFloats TInt (chosenInput [''abc''])
      = Some (NumError ''ParseInt'' ''abc'' ErrSyntax)"
    by (simp add: parseFailure_def chosenInput_def empty_def isInt_def strconv_defs)
  have ff: "findField (Fields (FixtureAddress :: unit StructType)) ''zip'' = Some ?f"
    by (simp add: fixture_defs fieldTag_def tag_defs)
  have num: "isInt (sfType ?f) \<or> isUint (sfType ?f) \<or> isFloat (sfType ?f)"
    by (simp add: isInt_def)
  have val: "runValidator FixtureAddress ?f (zeroAddress :: unit fields) [''abc''] = Inr (zeroAddress, None)"
    by (simp add: runValidator_def fixture_defs)
  have noset: "MethodByName (FixtureAddress :: unit StructType) (''FormSet'' @ sfName ?f) = None"
    by (simp add: fixture_defs)
  have pf1: "parseFailure noFloats (sfType ?f) (chosenInput [''abc''])
      = Some (NumError ''ParseInt'' ''abc'' ErrSyntax)"
    using pf by simp
  have gg: "findField (Fields (UnexportedZip :: unit StructType)) ''zip'' = Some ?g"
    by (simp add: UnexportedZip_def fieldTag_def tag_defs)
  have gnum: "isInt (sfType ?g) \<or> isUint (sfType ?g) \<or> isFloat (sfType ?g)"
    by (simp add: isInt_def)
  have gval: "runValidator UnexportedZip ?g (zeroZip :: unit fields) [''abc''] = Inr (zeroZip, None)"
    by (simp add: runValidator_def UnexportedZip_def)
  have gnoset: "MethodByName (UnexportedZip :: unit StructType) (''FormSet'' @ sfName ?g) = None"
    by (simp add: UnexportedZip_def)
  have pf2: "parseFailure noFloats (sfType ?g) (chosenInput [''abc''])
      = Some (NumError ''ParseInt'' ''abc'' ErrSyntax)"
    using pf by simp
  from parse_failure_dropped [OF ff num val noset pf1, of "[]" "[]" "[(''street'', [''1234 Long St.''])]"]
    parse_failure_dropped [OF gg gnum gval gnoset pf2, of "[]" "[]" "[]"]
  show ?thesis by (simp add: FieldByName_def zeroAddress_def zeroZip_def)
qed

text \<open>
  C3 as stated fails: decoding \<^verbatim>\<open>zip=abc\<close> into \<^verbatim>\<open>FixtureAddress\<close> returns \<^verbatim>\<open>nil\<close>.
\<close>

theorem parse_failure_counterexample:
  "errorOf (Unmarshal noFloats [(''zip'', [''abc''])] (Pointer [] (Struct FixtureAddress zeroAddress)))
     = Inr None"
  by (simp add: run_defs fixture_defs errorOf_def)

text \<open>
  C6, as the code has it. For an exported field of the type \<^verbatim>\<open>string\<close>,
  \<^verbatim>\<open>assignToStructField\<close> on a non-empty list of values succeeds and sets the field to
  the first value. For every field of kind string, on the empty list the unguarded
  \<^verbatim>\<open>val[0]\<close> is out of range, which is a panic and not a returned error.
\<close>

theorem text_field_coercion:
  "(vtype rv = TString \<and> CanSet rv \<longrightarrow>
      assignToStructField fl rv (v0 # vs) = Inr (rv\<lparr>vdata := VString v0\<rparr>, None))
   \<and> (isString (vtype ru) \<longrightarrow> assignToStructField fl ru [] = Inl IndexOutOfRange)"
  by (simp add: assignToStructField_def isString_def index0_def SetValue_def)

text \<open>
  C6 at the values \<^verbatim>\<open>["Matt", "Butcher"]\<close> and at no value.
\<close>

theorem text_field_coercion_witness:
  "assignToStructField noFloats \<lparr>vtype = TString, flagRO = False, vdata = VString []\<rparr> [''Matt'', ''Butcher'']
     = Inr (\<lparr>vtype = TString, flagRO = False, vdata = VString ''Matt''\<rparr>, None)
   \<and> assignToStructField noFloats \<lparr>vtype = TString, flagRO = False, vdata = VString []\<rparr> []
     = Inl IndexOutOfRange"
  using text_field_coercion [of "\<lparr>vtype = TString, flagRO = False, vdata = VString []\<rparr>" noFloats
      "''Matt''" "[''Butcher'']" "\<lparr>vtype = TString, flagRO = False, vdata = VString []\<rparr>"]
  by (simp add: CanSet_def isString_def)

text \<open>
  C6 as stated fails where the field cannot be set: for an unexported string field,
  and for a field of a type defined over \<^verbatim>\<open>string\<close>, a non-empty list of values makes
  \<^verbatim>\<open>rv.Set\<close> panic, and the field is not set.
\<close>

theorem text_field_counterexample:
  "assignToStructField noFloats \<lparr>vtype = TString, flagRO = True, vdata = VString []\<rparr> [''Matt'']
     = Inl SetUnsettable
   \<and> assignToStructField noFloats
       \<lparr>vtype = TDefined ''Title'' TString, flagRO = False, vdata = VString []\<rparr> [''Matt'']
     = Inl NotAssignable"
  by (simp add: assignToStructField_def isString_def index0_def SetValue_def CanSet_def)

text \<open>
  C7, as the code has it. For an integer field that can be set and is wide enough to
  hold 1999 (signed: \<^verbatim>\<open>int\<close>, \<^verbatim>\<open>int16\<close>, \<^verbatim>\<open>int32\<close>, \<^verbatim>\<open>int64\<close>; unsigned: \<^verbatim>\<open>uint\<close>,
  \<^verbatim>\<open>uint16\<close>, \<^verbatim>\<open>uint32\<close>, \<^verbatim>\<open>uint64\<close>; or a type defined over one of them),
  \<^verbatim>\<open>assignToStructField\<close> on \<^verbatim>\<open>["1999"]\<close> sets the field to 1999 and returns no error,
  and on the empty list it sets the field to 0 and returns no error.
\<close>

theorem integer_field_coercion:
  "(isInt (vtype rv) \<and> CanSet rv \<and> 1999 < (2::int) ^ (bitSize (vtype rv) - 1) \<longrightarrow>
      assignToStructField fl rv [''1999''] = Inr (rv\<lparr>vdata := VInt 1999\<rparr>, None)
      \<and> assignToStructField fl rv [] = Inr (rv\<lparr>vdata := VInt 0\<rparr>, None))
   \<and> (isUint (vtype ru) \<and> CanSet ru \<and> 1999 < (2::nat) ^ bitSize (vtype ru) \<longrightarrow>
      assignToStructField fl ru [''1999''] = Inr (ru\<lparr>vdata := VUint 1999\<rparr>, None)
      \<and> assignToStructField fl ru [] = Inr (ru\<lparr>vdata := VUint 0\<rparr>, None))"
proof (intro conjI impI)
  assume h: "isInt (vtype rv) \<and> CanSet rv \<and> 1999 < (2::int) ^ (bitSize (vtype rv) - 1)"
  then have a: "SetInt rv 1999 = Inr (rv\<lparr>vdata := VInt 1999\<rparr>)"
    by (intro SetInt_fits) simp_all
  have "- ((2::int) ^ (bitSize (vtype rv) - 1)) \<le> 0" by simp
  moreover have "(0::int) < 2 ^ (bitSize (vtype rv) - 1)" by simp
  ultimately have b: "SetInt rv 0 = Inr (rv\<lparr>vdata := VInt 0\<rparr>)"
    using h by (intro SetInt_fits) simp_all
  have t: "\<not> isString (vtype rv)" using numeric_disjoint(1) h by blast
  show "assignToStructField fl rv [''1999''] = Inr (rv\<lparr>vdata := VInt 1999\<rparr>, None)"
    using h t a
    by (simp add: assignToStructField_def assignToInt_def empty_def index0_def ParseInt_1999)
  show "assignToStructField fl rv [] = Inr (rv\<lparr>vdata := VInt 0\<rparr>, None)"
    using h t b
    by (simp add: assignToStructField_def assignToInt_def empty_def ParseInt_0)
next
  assume h: "isUint (vtype ru) \<and> CanSet ru \<and> 1999 < (2::nat) ^ bitSize (vtype ru)"
  then have a: "SetUint ru 1999 = Inr (ru\<lparr>vdata := VUint 1999\<rparr>)"
    by (simp add: SetUint_def take_bit_nat_eq_self)
  have b: "SetUint ru 0 = Inr (ru\<lparr>vdata := VUint 0\<rparr>)"
    using h by (simp add: SetUint_def)
  have t: "\<not> isString (vtype ru) \<and> \<not> isInt (vtype ru)" using numeric_disjoint(2) h by blast
  show "assignToStructField fl ru [''1999''] = Inr (ru\<lparr>vdata := VUint 1999\<rparr>, None)"
    using h t a
    by (simp add: assignToStructField_def assignToUint_def empty_def index0_def ParseUint_1999)
  show "assignToStructField fl ru [] = Inr (ru\<lparr>vdata := VUint 0\<rparr>, None)"
    using h t b
    by (simp add: assignToStructField_def assignToUint_def empty_def ParseUint_0)
qed

text \<open>
  C7 at a field of type \<^verbatim>\<open>int\<close> that holds 7 and at a field of type \<^verbatim>\<open>uint32\<close>, the
  type of \<^verbatim>\<open>Year\<close> in \<^verbatim>\<open>AssignmentTestStruct\<close>.
\<close>

theorem integer_field_coercion_witness:
  "assignToStructField noFloats \<lparr>vtype = TInt, flagRO = False, vdata = VInt 7\<rparr> [''1999'']
     = Inr (\<lparr>vtype = TInt, flagRO = False, vdata = VInt 1999\<rparr>, None)
   \<and> assignToStructField noFloats \<lparr>vtype = TInt, flagRO = False, vdata = VInt 7\<rparr> []
     = Inr (\<lparr>vtype = TInt, flagRO = False, vdata = VInt 0\<rparr>, None)
   \<and> assignToStructField noFloats \<lparr>vtype = TUint32, flagRO = False, vdata = VUint 7\<rparr> [''1999'']
     = Inr (\<lparr>vtype = TUint32, flagRO = False, vdata = VUint 1999\<rparr>, None)
   \<and> assignToStructField noFloats \<lparr>vtype = TUint32, flagRO = False, vdata = VUint 7\<rparr> []
     = Inr (\<lparr>vtype = TUint32, flagRO = False, vdata = VUint 0\<rparr>, None)"
  using integer_field_coercion [of "\<lparr>vtype = TInt, flagRO = False, vdata = VInt 7\<rparr>" noFloats
      "\<lparr>vtype = TUint32, flagRO = False, vdata = VUint 7\<rparr>"]
  by (simp add: CanSet_def isInt_def isUint_def IntSize_def)

text \<open>
  C7 as stated fails on an 8-bit field and on an unexported field: from \<^verbatim>\<open>["1999"]\<close>
  an \<^verbatim>\<open>int8\<close> field receives the low eight bits of 1999, that is -49, and a \<^verbatim>\<open>uint8\<close>
  field 207, both without an error; an unexported \<^verbatim>\<open>int\<close> field keeps its value and
  the coercion returns the error \<^verbatim>\<open>cannot set\<close>.
\<close>

theorem integer_field_counterexample:
  "assignToStructField noFloats \<lparr>vtype = TInt8, flagRO = False, vdata = VInt 0\<rparr> [''1999'']
     = Inr (\<lparr>vtype = TInt8, flagRO = False, vdata = VInt (- 49)\<rparr>, None)
   \<and> assignToStructField noFloats \<lparr>vtype = TUint8, flagRO = False, vdata = VUint 0\<rparr> [''1999'']
     = Inr (\<lparr>vtype = TUint8, flagRO = False, vdata = VUint 207\<rparr>, None)
   \<and> assignToStructField noFloats \<lparr>vtype = TInt, flagRO = True, vdata = VInt 7\<rparr> [''1999'']
     = Inr (\<lparr>vtype = TInt, flagRO = True, vdata = VInt 7\<rparr>, Some (cannotSet TInt))"
proof -
  have a: "signed_take_bit 7 (1999::int) = - 49"
    by (simp add: signed_take_bit_eq_take_bit_shift take_bit_eq_mod)
  have b: "take_bit 8 (1999::nat) = 207"
    by (simp add: take_bit_eq_mod)
  show ?thesis
    using a b
    by (simp add: assignToStructField_def assignToInt_def assignToUint_def SetInt_def SetUint_def
        CanSet_def isString_def isInt_def isUint_def empty_def index0_def ParseInt_1999 ParseUint_1999)
qed

subsection \<open>Resolving keys to fields\<close>

text \<open>
  C8. A field without a tag gets the name of the field as the name of its tag, in
  \<^verbatim>\<open>Tags\<close> and in \<^verbatim>\<open>assignToStruct\<close> alike. Decoding \<^verbatim>\<open>first_name=Matt\<close> into the struct
  with the fields \<^verbatim>\<open>FirstName string `form:"first_name"`\<close> and \<^verbatim>\<open>LastName string\<close> returns
  no error, sets \<^verbatim>\<open>FirstName\<close> to \<^verbatim>\<open>Matt\<close> and leaves \<^verbatim>\<open>LastName\<close> as it was.
\<close>

theorem untagged_field_name:
  "(sfTag f = [] \<longrightarrow> fieldTag f = zeroTag\<lparr>Name := sfName f\<rparr>)
   \<and> Tags (Pointer tname (Struct NameStruct st)) =
       Inr [zeroTag\<lparr>Name := ''first_name''\<rparr>, zeroTag\<lparr>Name := ''LastName''\<rparr>]
   \<and> errorOf (Unmarshal fl [(''first_name'', [''Matt''])] (Pointer tname (Struct NameStruct st)))
       = Inr None
   \<and> fieldAfter (Unmarshal fl [(''first_name'', [''Matt''])] (Pointer tname (Struct NameStruct st)))
        ''FirstName'' = Some (VString ''Matt'')
   \<and> fieldAfter (Unmarshal fl [(''first_name'', [''Matt''])] (Pointer tname (Struct NameStruct st)))
        ''LastName'' = Some (st ''LastName'')"
proof -
  have u: "Unmarshal fl [(''first_name'', [''Matt''])] (Pointer tname (Struct NameStruct st))
    = Inr (Pointer tname (Struct NameStruct (st(''FirstName'' := VString ''Matt''))), None)"
    by (simp add: walk_defs struct_defs assign_defs tag_defs NameStruct_def)
  have t: "sfTag f = [] \<longrightarrow> fieldTag f = zeroTag\<lparr>Name := sfName f\<rparr>"
    by (simp add: fieldTag_def tag_defs)
  have g: "Tags (Pointer tname (Struct NameStruct st)) =
       Inr [zeroTag\<lparr>Name := ''first_name''\<rparr>, zeroTag\<lparr>Name := ''LastName''\<rparr>]"
    by (simp add: Tags_def NameStruct_def fieldTag_def tag_defs)
  show ?thesis using t g by (simp add: u errorOf_def fieldAfter_def)
qed

text \<open>
  C8 at the field \<^verbatim>\<open>LastName\<close> and at the zero value of the struct.
\<close>

theorem untagged_field_name_witness:
  "Name (fieldTag \<lparr>sfName = ''LastName'', sfPkgPath = [], sfType = TString, sfTag = []\<rparr>) = ''LastName''
   \<and> fieldAfter (Unmarshal noFloats [(''first_name'', [''Matt''])] (Pointer [] (Struct NameStruct (\<lambda>name. VString []))))
        ''FirstName'' = Some (VString ''Matt'')
   \<and> fieldAfter (Unmarshal noFloats [(''first_name'', [''Matt''])] (Pointer [] (Struct NameStruct (\<lambda>name. VString []))))
        ''LastName'' = Some (VString [])"
  using untagged_field_name [of "\<lparr>sfName = ''LastName'', sfPkgPath = [], sfType = TString, sfTag = []\<rparr>"
      "[]" "\<lambda>name. VString []" noFloats]
  by simp

text \<open>
  C5 at the key \<^verbatim>\<open>""\<close>. The tag \<^verbatim>\<open>-\<close> parses to \<^verbatim>\<open>Ignore\<close> with an empty name, and
  the name of an ignored tag stays empty; the comparison \<^verbatim>\<open>tag.Name == key\<close> does not
  look at \<^verbatim>\<open>Ignore\<close>, so the empty key resolves to the ignored field: decoding the
  mapping with the one key \<^verbatim>\<open>""\<close> and the value \<^verbatim>\<open>true\<close> into \<^verbatim>\<open>ExampleForm\<close> sets the
  field \<^verbatim>\<open>Processed\<close>, whose tag is \<^verbatim>\<open>-\<close>, from false to true. By
  \<open>ignored_only_by_empty_key\<close> the empty key is the only one that does so.
\<close>

theorem ignored_field_empty_key:
  "parseTag ''-'' =
     \<lparr>Name = [], Prefix = [], Suffix = [], Omit = False, Ignore = True, Group = False\<rparr>
   \<and> zeroForm ''Processed'' = VBool False
   \<and> errorOf (Unmarshal noFloats [([], [''true''])] (Pointer [] (Struct ExampleForm zeroForm)))
       = Inr None
   \<and> fieldAfter (Unmarshal noFloats [([], [''true''])] (Pointer [] (Struct ExampleForm zeroForm)))
        ''Processed'' = Some (VBool True)"
  by (simp add: run_defs ExampleForm_def zeroForm_def errorOf_def fieldAfter_def)

subsection \<open>The destination\<close>

text \<open>
  C4, as the code has it. When the pointer handed to \<^verbatim>\<open>Unmarshal\<close> points to a map or
  to anything else that is not a struct, the call on a mapping that is not empty
  returns the error \<^verbatim>\<open>object ... cannot be used to store values\<close> at the first key and
  leaves the object as it was, whatever keys follow; on the empty mapping \<^verbatim>\<open>findIn\<close> is
  never called and the call returns \<^verbatim>\<open>nil\<close>.
\<close>

theorem unsupported_destination:
  assumes "val = MapOf \<or> val = OtherKind"
  shows "Unmarshal fl ((key, vals) # v) (Pointer tname val) = Inr (Pointer tname val, Some (cannotStore tname))
    \<and> Unmarshal fl [] (Pointer tname val) = Inr (Pointer tname val, None)"
  using assms by (auto simp: Unmarshal_def walk_def findIn_def cannotStore_def)

text \<open>
  C4 at a pointer to something that is neither a struct nor a map.
\<close>

theorem unsupported_destination_witness:
  "Unmarshal noFloats [(''first_name'', [''Matt''])] (Pointer [] OtherKind)
     = Inr (Pointer [] OtherKind, Some (ErrorString ''object  cannot be used to store values''))
   \<and> Unmarshal noFloats [] (Pointer [] OtherKind) = Inr (Pointer [] OtherKind, None)"
  using unsupported_destination [of OtherKind noFloats "''first_name''" "[''Matt'']" "[]" "[]"]
  by (simp add: cannotStore_def)

text \<open>
  C4 as stated fails on the empty mapping: no error is returned.
\<close>

theorem empty_mapping_counterexample:
  "errorOf (Unmarshal noFloats [] (Pointer [] OtherKind)) = Inr None"
  by (simp add: Unmarshal_def walk_def errorOf_def)

end
